theory Spec2Isabelle
  imports Main "HOL-Library.Multiset" "HOL-Library.Product_Lexorder"
begin

section \<open>TrackNest: the relational store\<close>

text \<open>
  The server (\<^verbatim>\<open>server/routes/api.js\<close>) keeps no state of its own: every route runs
  parameterised SQL statements against one MySQL connection. A table is modelled as the
  list of its rows, a row as a record of the columns the statements mention. Columns are
  compared with HOL equality (a binary collation) and no stored column is NULL. A statement of
  the store is assumed to succeed, so the \<^verbatim>\<open>catch\<close> branches (status 500) have no
  counterpart here.
\<close>

type_synonym date = nat

record user_row =
  u_username :: string
  u_email :: string
  u_password :: string
  u_bio :: "string option"

record song =
  songTitle :: string
  artistName :: string
  albumTitle :: string
  duration :: int
  plays :: int

record classification =
  c_songTitle :: string
  c_artistName :: string
  c_albumTitle :: string
  c_genreName :: string

record playlist =
  p_name :: string
  p_username :: string
  p_creationDate :: date

record userlike =
  ul_username :: string
  ul_songTitle :: string
  ul_artistName :: string
  ul_albumTitle :: string
  ul_likeDate :: date

record topchart =
  tc_chartName :: string
  tc_chartDate :: date

record chartentry =
  ce_chartName :: string
  ce_chartDate :: date
  ce_songTitle :: string
  ce_artistName :: string
  ce_albumTitle :: string

text \<open>
  \<open>Artist\<close> and \<open>Genre\<close> are used through their name column only, \<open>Album\<close> through
  \<open>(albumTitle, artistName)\<close>.
\<close>

record db =
  User :: "user_row list"
  Song :: "song list"
  Artist :: "string list"
  Album :: "(string \<times> string) list"
  Genre :: "string list"
  Classification :: "classification list"
  Playlist :: "playlist list"
  UserLike :: "userlike list"
  TopChart :: "topchart list"
  ChartEntry :: "chartentry list"

section \<open>Requests and replies\<close>

text \<open>
  A reply that carries only \<^verbatim>\<open>{ message }\<close> is its HTTP status and that message. The
  statuses the routes use: 400 for a rejected input (missing field, duplicate key, bad
  login), 401 for a missing identity, 404 for an absent entity, 200 and 201 for success.
\<close>

record reply =
  status :: nat
  message :: string

text \<open>
  A field of the body of a like or of a playlist request, and a parameter of the query
  string of a search, is absent or a string; the body of a login is modelled with every
  JSON value, further down. JavaScript's \<^verbatim>\<open>if (x)\<close> holds for a string exactly when it is
  present and not empty.
\<close>

fun truthy :: "string option \<Rightarrow> bool" where
  "truthy None = False"
| "truthy (Some s) = (s \<noteq> [])"

fun str :: "string option \<Rightarrow> string" where
  "str None = []"
| "str (Some s) = s"

section \<open>Likes\<close>

text \<open>The two \<^verbatim>\<open>SELECT *\<close> checks of \<^verbatim>\<open>POST /api/likes\<close> and \<^verbatim>\<open>DELETE /api/likes\<close>.\<close>

definition song_rows :: "db \<Rightarrow> string \<Rightarrow> string \<Rightarrow> string \<Rightarrow> song list" where
  "song_rows d t a al =
     filter (\<lambda>s. songTitle s = t \<and> artistName s = a \<and> albumTitle s = al) (Song d)"

definition is_like_of :: "string \<Rightarrow> string \<Rightarrow> string \<Rightarrow> string \<Rightarrow> userlike \<Rightarrow> bool" where
  "is_like_of u t a al l =
     (ul_username l = u \<and> ul_songTitle l = t \<and> ul_artistName l = a \<and> ul_albumTitle l = al)"

definition like_rows :: "db \<Rightarrow> string \<Rightarrow> string \<Rightarrow> string \<Rightarrow> string \<Rightarrow> userlike list" where
  "like_rows d u t a al = filter (is_like_of u t a al) (UserLike d)"

text \<open>
  \<^verbatim>\<open>POST /api/likes\<close>, behind the required-auth middleware: \<open>username\<close> is
  \<^verbatim>\<open>req.user.id\<close>, \<open>now\<close> the store's \<^verbatim>\<open>CURRENT_TIMESTAMP\<close>.
\<close>

definition post_likes ::
  "db \<Rightarrow> date \<Rightarrow> string \<Rightarrow> string option \<Rightarrow> string option \<Rightarrow> string option \<Rightarrow> reply \<times> db" where
  "post_likes d now username t a al =
     (if \<not> (truthy t \<and> truthy a \<and> truthy al) then
        (\<lparr>status = 400, message = ''Please provide songTitle, artistName, and albumTitle.''\<rparr>, d)
      else if song_rows d (str t) (str a) (str al) = [] then
        (\<lparr>status = 404, message = ''Song not found.''\<rparr>, d)
      else if like_rows d username (str t) (str a) (str al) \<noteq> [] then
        (\<lparr>status = 400, message = ''Song is already liked.''\<rparr>, d)
      else
        (\<lparr>status = 201, message = ''Song liked successfully.''\<rparr>,
         d\<lparr>UserLike := UserLike d @
              [\<lparr>ul_username = username, ul_songTitle = str t, ul_artistName = str a,
                ul_albumTitle = str al, ul_likeDate = now\<rparr>]\<rparr>))"

text \<open>\<^verbatim>\<open>DELETE /api/likes\<close>: the \<^verbatim>\<open>DELETE FROM UserLike WHERE ...\<close> drops every matching row.\<close>

definition delete_likes ::
  "db \<Rightarrow> string \<Rightarrow> string option \<Rightarrow> string option \<Rightarrow> string option \<Rightarrow> reply \<times> db" where
  "delete_likes d username t a al =
     (if \<not> (truthy t \<and> truthy a \<and> truthy al) then
        (\<lparr>status = 400, message = ''Please provide songTitle, artistName, and albumTitle.''\<rparr>, d)
      else if like_rows d username (str t) (str a) (str al) = [] then
        (\<lparr>status = 404, message = ''Song is not in your liked songs.''\<rparr>, d)
      else
        (\<lparr>status = 200, message = ''Song unliked successfully.''\<rparr>,
         d\<lparr>UserLike :=
              filter (\<lambda>l. \<not> is_like_of username (str t) (str a) (str al) l) (UserLike d)\<rparr>))"

section \<open>Playlists\<close>

text \<open>\<^verbatim>\<open>POST /api/playlists\<close>, behind the required-auth middleware.\<close>

definition playlist_rows :: "db \<Rightarrow> string \<Rightarrow> string \<Rightarrow> playlist list" where
  "playlist_rows d n u = filter (\<lambda>p. p_name p = n \<and> p_username p = u) (Playlist d)"

definition post_playlists :: "db \<Rightarrow> date \<Rightarrow> string \<Rightarrow> string option \<Rightarrow> reply \<times> db" where
  "post_playlists d now username name =
     (if \<not> truthy name then
        (\<lparr>status = 400, message = ''Please provide a playlist name.''\<rparr>, d)
      else if playlist_rows d (str name) username \<noteq> [] then
        (\<lparr>status = 400, message = ''Playlist with this name already exists.''\<rparr>, d)
      else
        (\<lparr>status = 201, message = ''Playlist created successfully.''\<rparr>,
         d\<lparr>Playlist := Playlist d @
              [\<lparr>p_name = str name, p_username = username, p_creationDate = now\<rparr>]\<rparr>))"

section \<open>ORDER BY\<close>

text \<open>
  \<^verbatim>\<open>ORDER BY k ASC\<close> and \<^verbatim>\<open>ORDER BY k DESC\<close>. SQL leaves the order of rows with equal
  keys open; the model picks the one of a stable insertion sort, and the theorems below
  speak of the keys only.
\<close>

definition order_by_asc :: "('a \<Rightarrow> 'k::linorder) \<Rightarrow> 'a list \<Rightarrow> 'a list" where
  "order_by_asc k rows = sort_key k rows"

definition order_by_desc :: "('a \<Rightarrow> 'k::linorder) \<Rightarrow> 'a list \<Rightarrow> 'a list" where
  "order_by_desc k rows = rev (sort_key k rows)"

section \<open>Top charts\<close>

text \<open>\<^verbatim>\<open>GET /api/top-charts\<close>: \<^verbatim>\<open>SELECT DISTINCT chartName FROM TopChart\<close>, always status 200.\<close>

definition get_top_charts :: "db \<Rightarrow> reply + string list" where
  "get_top_charts d = Inr (remdups (map tc_chartName (TopChart d)))"

text \<open>\<^verbatim>\<open>GET /api/top-charts/:name/dates\<close>.\<close>

definition get_top_chart_dates :: "db \<Rightarrow> string \<Rightarrow> reply + date list" where
  "get_top_chart_dates d name =
     (let dates = order_by_desc (\<lambda>x. x)
                    (map tc_chartDate (filter (\<lambda>t. tc_chartName t = name) (TopChart d)))
      in if dates = [] then
           Inl \<lparr>status = 404, message = ''Top chart not found or no dates available.''\<rparr>
         else Inr dates)"

text \<open>
  \<^verbatim>\<open>GET /api/top-charts/:name/:date/songs\<close>: the chart is looked up in \<open>TopChart\<close>, its
  songs come from \<open>ChartEntry\<close> joined with \<open>Song\<close> on the song's three key columns.
\<close>

definition get_top_chart_songs :: "db \<Rightarrow> string \<Rightarrow> date \<Rightarrow> reply + song list" where
  "get_top_chart_songs d name date =
     (if filter (\<lambda>t. tc_chartName t = name \<and> tc_chartDate t = date) (TopChart d) = [] then
        Inl \<lparr>status = 404, message = ''Top chart not found for the specified name and date.''\<rparr>
      else
        Inr (order_by_desc plays
              [s. e \<leftarrow> ChartEntry d, s \<leftarrow> Song d,
                  ce_songTitle e = songTitle s \<and> ce_artistName e = artistName s
                  \<and> ce_albumTitle e = albumTitle s
                  \<and> ce_chartName e = name \<and> ce_chartDate e = date]))"

section \<open>The optional-auth middleware\<close>

text \<open>
  \<open>identity\<close> is the \<^verbatim>\<open>user\<close> object of a token's payload, \<^verbatim>\<open>{ id, email }\<close>, where
  \<^verbatim>\<open>id\<close> is the username. A request carries the \<^verbatim>\<open>x-auth-token\<close> header, the
  identity a middleware attached (\<^verbatim>\<open>req.user\<close>) and the query string of a search.
\<close>

record identity =
  id_id :: string
  id_email :: string

record search_query =
  q_songTitle :: "string option"
  q_artistName :: "string option"
  q_albumTitle :: "string option"
  q_genreName :: "string option"
  q_sortOrder :: "string option"
  q_liked :: "string option"

record request =
  req_token :: "string option"
  req_user :: "identity option"
  req_query :: search_query

text \<open>
  \<^verbatim>\<open>authOptional\<close>. \<^verbatim>\<open>jwt.verify\<close> is the library's: \<open>verify token\<close> is \<open>Inl msg\<close> when
  it throws (bad signature, expired) and \<open>Inr u\<close> with \<open>u\<close> the payload's \<^verbatim>\<open>user\<close>
  otherwise. The middleware always calls \<^verbatim>\<open>next()\<close>: the result is the request handed
  on and the lines written with \<^verbatim>\<open>console.error\<close>.
\<close>

definition authOptional ::
  "(string \<Rightarrow> string + identity option) \<Rightarrow> request \<Rightarrow> request \<times> string list" where
  "authOptional verify req =
     (if \<not> truthy (req_token req) then (req, [])
      else case verify (str (req_token req)) of
             Inr decoded_user \<Rightarrow> (req\<lparr>req_user := decoded_user\<rparr>, [])
           | Inl err \<Rightarrow> (req, [''Invalid token: '' @ err]))"

section \<open>Search\<close>

record search_row =
  sr_songTitle :: string
  sr_artistName :: string
  sr_albumTitle :: string
  sr_genreName :: string
  sr_plays :: int
  sr_duration :: int

text \<open>
  \<open>like v p\<close> is the store's \<^verbatim>\<open>v LIKE p\<close>; a filter that is present and not empty adds
  \<^verbatim>\<open>AND column LIKE '%value%'\<close>.
\<close>

definition like_filter :: "(string \<Rightarrow> string \<Rightarrow> bool) \<Rightarrow> string option \<Rightarrow> string \<Rightarrow> bool" where
  "like_filter like p v = (if truthy p then like v (''%'' @ str p @ ''%'') else True)"

text \<open>
  The liked filter is
  \<^verbatim>\<open>AND Song.songTitle IN (SELECT songTitle FROM UserLike WHERE username = ?)\<close>.
\<close>

definition liked_titles :: "db \<Rightarrow> string \<Rightarrow> string list" where
  "liked_titles d u = map ul_songTitle (filter (\<lambda>l. ul_username l = u) (UserLike d))"

definition liked_filter :: "db \<Rightarrow> string option \<Rightarrow> string \<Rightarrow> bool" where
  "liked_filter d liked_by t =
     (case liked_by of None \<Rightarrow> True | Some u \<Rightarrow> t \<in> set (liked_titles d u))"

text \<open>
  The base query with its joins and the \<^verbatim>\<open>WHERE\<close> clause built from the request;
  \<open>liked_by\<close> is the username of the liked filter when that filter is applied.
\<close>

definition search_rows ::
  "(string \<Rightarrow> string \<Rightarrow> bool) \<Rightarrow> db \<Rightarrow> search_query \<Rightarrow> string option \<Rightarrow> search_row list" where
  "search_rows like d q liked_by =
     [\<lparr>sr_songTitle = songTitle s, sr_artistName = a, sr_albumTitle = fst al,
       sr_genreName = g, sr_plays = plays s, sr_duration = duration s\<rparr>.
        s \<leftarrow> Song d,
        a \<leftarrow> Artist d, artistName s = a,
        al \<leftarrow> Album d, albumTitle s = fst al \<and> artistName s = snd al,
        c \<leftarrow> Classification d,
        songTitle s = c_songTitle c \<and> artistName s = c_artistName c
        \<and> albumTitle s = c_albumTitle c,
        g \<leftarrow> Genre d, c_genreName c = g,
        like_filter like (q_songTitle q) (songTitle s)
        \<and> like_filter like (q_artistName q) a
        \<and> like_filter like (q_albumTitle q) (fst al)
        \<and> like_filter like (q_genreName q) g
        \<and> liked_filter d liked_by (songTitle s)]"

text \<open>\<^verbatim>\<open>!req.user || !req.user.id\<close>.\<close>

fun no_identity :: "identity option \<Rightarrow> bool" where
  "no_identity None = True"
| "no_identity (Some i) = (id_id i = [])"

fun user_id :: "identity option \<Rightarrow> string" where
  "user_id None = []"
| "user_id (Some i) = id_id i"

text \<open>
  The direction of the sort: \<open>upper\<close> is JavaScript's \<^verbatim>\<open>String.prototype.toUpperCase\<close>.
\<close>

definition sort_ascending :: "(string \<Rightarrow> string) \<Rightarrow> string option \<Rightarrow> bool" where
  "sort_ascending upper sortOrder = (truthy sortOrder \<and> upper (str sortOrder) = ''ASC'')"

text \<open>
  The handler of \<^verbatim>\<open>GET /api/search\<close>, run on the request the middleware hands on. A
  parameter given several times, which the query parser turns into an array, is outside
  this model: for \<open>sortOrder\<close> such a value has no \<^verbatim>\<open>toUpperCase\<close>, and the call, made
  before the handler's \<^verbatim>\<open>try\<close>, throws.
\<close>

definition search_handler ::
  "(string \<Rightarrow> string) \<Rightarrow> (string \<Rightarrow> string \<Rightarrow> bool) \<Rightarrow> db \<Rightarrow> request \<Rightarrow> reply + search_row list" where
  "search_handler upper like d req =
     (let q = req_query req in
      if q_liked q = Some ''true'' \<and> no_identity (req_user req) then
        Inl \<lparr>status = 401, message = ''Authentication required to filter liked songs.''\<rparr>
      else
        (let rows = search_rows like d q
                      (if q_liked q = Some ''true'' then Some (user_id (req_user req)) else None)
         in Inr (if sort_ascending upper (q_sortOrder q) then order_by_asc sr_plays rows
                 else order_by_desc sr_plays rows)))"

text \<open>\<^verbatim>\<open>router.get('/search', authOptional, ...)\<close>: the reply and the lines logged.\<close>

definition get_search ::
  "(string \<Rightarrow> string + identity option) \<Rightarrow> (string \<Rightarrow> string) \<Rightarrow> (string \<Rightarrow> string \<Rightarrow> bool) \<Rightarrow>
     db \<Rightarrow> request \<Rightarrow> (reply + search_row list) \<times> string list" where
  "get_search verify upper like d req =
     (case authOptional verify req of (req', logged) \<Rightarrow> (search_handler upper like d req', logged))"

text \<open>
  On ASCII strings \<^verbatim>\<open>toUpperCase\<close> maps \<^verbatim>\<open>a\<close> to \<^verbatim>\<open>z\<close> onto \<^verbatim>\<open>A\<close> to \<^verbatim>\<open>Z\<close> and leaves
  every other character alone; this is the function used at concrete inputs.
\<close>

definition ascii_upper_char :: "char \<Rightarrow> char" where
  "ascii_upper_char c =
     (if 97 \<le> (of_char c :: nat) \<and> (of_char c :: nat) \<le> 122
      then char_of ((of_char c :: nat) - 32) else c)"

definition ascii_upper :: "string \<Rightarrow> string" where
  "ascii_upper s = map ascii_upper_char s"

section \<open>Login\<close>

text \<open>
  The body of \<^verbatim>\<open>POST /api/login\<close> is parsed by \<^verbatim>\<open>express.json()\<close>: a field is absent or
  any JSON value. The numbers of the model are the integers. JavaScript's \<^verbatim>\<open>!x\<close> holds for
  an absent field, \<^verbatim>\<open>null\<close>, \<^verbatim>\<open>false\<close>, \<^verbatim>\<open>0\<close> and the empty string, and for nothing
  else: an array or an object is never falsy.
\<close>

datatype json =
  JNull
  | JBool bool
  | JNum int
  | JStr string
  | JArr "json list"
  | JObj "(string \<times> json) list"

fun js_truthy :: "json option \<Rightarrow> bool" where
  "js_truthy None = False"
| "js_truthy (Some JNull) = False"
| "js_truthy (Some (JBool b)) = b"
| "js_truthy (Some (JNum n)) = (n \<noteq> 0)"
| "js_truthy (Some (JStr s)) = (s \<noteq> [])"
| "js_truthy (Some (JArr vs)) = True"
| "js_truthy (Some (JObj kvs)) = True"

fun jval :: "json option \<Rightarrow> json" where
  "jval None = JNull"
| "jval (Some v) = v"

text \<open>
  \<^verbatim>\<open>SELECT * FROM User WHERE email = ?\<close>. For a string parameter the rows are those with
  that email. What the driver and the store make of a parameter that is not a string (a
  number is compared numerically, an array is spliced into the statement) is the store's
  matter: \<open>other\<close> stands for it, and it may fail (\<open>Inl\<close>).
\<close>

definition select_users_by_email ::
  "(json \<Rightarrow> user_row list \<Rightarrow> string + user_row list) \<Rightarrow> db \<Rightarrow> json \<Rightarrow>
     string + user_row list" where
  "select_users_by_email other d email =
     (case email of
        JStr e \<Rightarrow> Inr (filter (\<lambda>u. u_email u = e) (User d))
      | _ \<Rightarrow> other email (User d))"

record login_ok =
  lo_token :: string
  lo_username :: string
  lo_email :: string
  lo_bio :: "string option"
  lo_message :: string

text \<open>
  \<^verbatim>\<open>POST /api/login\<close>. \<open>compare\<close> is \<^verbatim>\<open>bcrypt.compare\<close> (the password of the body, the
  stored hash) and \<open>sign\<close> is \<^verbatim>\<open>jwt.sign\<close> with the server's secret and the 3 hour expiry;
  either may throw, which is the value \<open>Inl\<close>. Everything after the first guard runs inside
  the handler's \<^verbatim>\<open>try\<close>, whose \<^verbatim>\<open>catch\<close> answers 500.
\<close>

definition login_server_error :: reply where
  "login_server_error =
     \<lparr>status = 500, message = ''Server error during login. Please try again later.''\<rparr>"

definition post_login ::
  "(json \<Rightarrow> string \<Rightarrow> string + bool) \<Rightarrow> (identity \<Rightarrow> string + string) \<Rightarrow>
     (json \<Rightarrow> user_row list \<Rightarrow> string + user_row list) \<Rightarrow> db \<Rightarrow>
     json option \<Rightarrow> json option \<Rightarrow> reply + login_ok" where
  "post_login compare sign other d email password =
     (if \<not> (js_truthy email \<and> js_truthy password) then
        Inl \<lparr>status = 400, message = ''Please provide email and password.''\<rparr>
      else
        case select_users_by_email other d (jval email) of
          Inl error \<Rightarrow> Inl login_server_error
        | Inr users \<Rightarrow>
           (case users of
              [] \<Rightarrow> Inl \<lparr>status = 400, message = ''Invalid email or password.''\<rparr>
            | user # _ \<Rightarrow>
               (case compare (jval password) (u_password user) of
                  Inl error \<Rightarrow> Inl login_server_error
                | Inr isMatch \<Rightarrow>
                    if \<not> isMatch then
                      Inl \<lparr>status = 400, message = ''Invalid email or password.''\<rparr>
                    else
                      (case sign \<lparr>id_id = u_username user, id_email = u_email user\<rparr> of
                         Inl error \<Rightarrow> Inl login_server_error
                       | Inr token \<Rightarrow>
                           Inr \<lparr>lo_token = token, lo_username = u_username user,
                                lo_email = u_email user, lo_bio = u_bio user,
                                lo_message = ''Login successful.''\<rparr>))))"

section \<open>Recommendations\<close>

text \<open>
  \<^verbatim>\<open>GET /api/recommendations\<close> is one aggregate query. Its operators are modelled one by
  one: a \<^verbatim>\<open>LEFT JOIN\<close> pairs a row with each match of the right table, or with NULL
  (\<open>None\<close>) when there is none; \<^verbatim>\<open>GROUP BY\<close> collects the rows of each key;
  \<^verbatim>\<open>COUNT(DISTINCT col)\<close> counts the different values of a column in a group that are
  not NULL.
\<close>

definition left_join :: "'a list \<Rightarrow> 'b list \<Rightarrow> ('a \<Rightarrow> 'b \<Rightarrow> bool) \<Rightarrow> ('a \<times> 'b option) list" where
  "left_join xs ys on =
     concat (map (\<lambda>x. if filter (on x) ys = [] then [(x, None)]
                       else map (\<lambda>y. (x, Some y)) (filter (on x) ys)) xs)"

definition group_by :: "('r \<Rightarrow> 'k) \<Rightarrow> 'r list \<Rightarrow> ('k \<times> 'r list) list" where
  "group_by key rows =
     map (\<lambda>k. (k, filter (\<lambda>r. key r = k) rows)) (remdups (map key rows))"

definition count_distinct :: "('r \<Rightarrow> 'v option) \<Rightarrow> 'r list \<Rightarrow> int" where
  "count_distinct col rows = int (length (remdups (List.map_filter col rows)))"

text \<open>The three derived tables \<^verbatim>\<open>a\<close>, \<^verbatim>\<open>al\<close> and \<^verbatim>\<open>g\<close> of the caller \<open>u\<close>.\<close>

definition liked_artists :: "db \<Rightarrow> string \<Rightarrow> string list" where
  "liked_artists d u = remdups [ul_artistName l. l \<leftarrow> UserLike d, ul_username l = u]"

definition liked_albums :: "db \<Rightarrow> string \<Rightarrow> string list" where
  "liked_albums d u = remdups [ul_albumTitle l. l \<leftarrow> UserLike d, ul_username l = u]"

definition liked_genres :: "db \<Rightarrow> string \<Rightarrow> string list" where
  "liked_genres d u =
     remdups [c_genreName c2. ul \<leftarrow> UserLike d, c2 \<leftarrow> Classification d,
                ul_songTitle ul = c_songTitle c2 \<and> ul_artistName ul = c_artistName c2
                \<and> ul_albumTitle ul = c_albumTitle c2 \<and> ul_username ul = u]"


text \<open>
  The \<^verbatim>\<open>ON\<close> clause that joins \<open>Song\<close> with \<open>Classification\<close>, here and in the search.
\<close>

definition classified :: "song \<Rightarrow> classification \<Rightarrow> bool" where
  "classified s c =
     (songTitle s = c_songTitle c \<and> artistName s = c_artistName c
      \<and> albumTitle s = c_albumTitle c)"

text \<open>A row of the \<^verbatim>\<open>FROM\<close> clause: \<^verbatim>\<open>s\<close>, \<^verbatim>\<open>c\<close>, and the columns of \<^verbatim>\<open>a\<close>, \<^verbatim>\<open>al\<close>, \<^verbatim>\<open>g\<close>.\<close>

type_synonym rec_joined =
  "(((song \<times> classification) \<times> string option) \<times> string option) \<times> string option"

definition rec_from :: "db \<Rightarrow> string \<Rightarrow> rec_joined list" where
  "rec_from d u =
     left_join
       (left_join
          (left_join
             [(s, c). s \<leftarrow> Song d, c \<leftarrow> Classification d, classified s c]
             (liked_artists d u) (\<lambda>(s, c) a. artistName s = a))
          (liked_albums d u) (\<lambda>((s, c), a) al. albumTitle s = al))
       (liked_genres d u) (\<lambda>(((s, c), a), al) g. c_genreName c = g)"

text \<open>\<^verbatim>\<open>WHERE NOT EXISTS (SELECT 1 FROM UserLike ul2 WHERE ...)\<close>.\<close>

definition rec_where :: "db \<Rightarrow> string \<Rightarrow> rec_joined \<Rightarrow> bool" where
  "rec_where d u = (\<lambda>((((s, c), a), al), g).
     like_rows d u (songTitle s) (artistName s) (albumTitle s) = [])"

text \<open>
  \<^verbatim>\<open>GROUP BY s.songTitle, s.artistName, s.albumTitle, s.duration, s.plays, c.genreName\<close>:
  the five columns of \<^verbatim>\<open>s\<close> are the whole \<open>song\<close> record.
\<close>

definition rec_key :: "rec_joined \<Rightarrow> song \<times> string" where
  "rec_key = (\<lambda>((((s, c), a), al), g). (s, c_genreName c))"

definition rec_groups :: "db \<Rightarrow> string \<Rightarrow> ((song \<times> string) \<times> rec_joined list) list" where
  "rec_groups d u = group_by rec_key (filter (rec_where d u) (rec_from d u))"

definition col_a :: "rec_joined \<Rightarrow> string option" where
  "col_a = (\<lambda>((((s, c), a), al), g). a)"

definition col_al :: "rec_joined \<Rightarrow> string option" where
  "col_al = (\<lambda>((((s, c), a), al), g). al)"

definition col_g :: "rec_joined \<Rightarrow> string option" where
  "col_g = (\<lambda>((((s, c), a), al), g). g)"

record recommendation =
  r_songTitle :: string
  r_artistName :: string
  r_albumTitle :: string
  r_duration :: int
  r_plays :: int
  r_genreName :: string
  r_score :: int

definition rec_score :: "rec_joined list \<Rightarrow> int" where
  "rec_score rows =
     3 * count_distinct col_a rows + 2 * count_distinct col_al rows
     + 1 * count_distinct col_g rows"

definition rec_select :: "(song \<times> string) \<times> rec_joined list \<Rightarrow> recommendation" where
  "rec_select = (\<lambda>((s, genre), rows).
     \<lparr>r_songTitle = songTitle s, r_artistName = artistName s, r_albumTitle = albumTitle s,
      r_duration = duration s, r_plays = plays s, r_genreName = genre,
      r_score = rec_score rows\<rparr>)"

text \<open>
  The whole query: \<^verbatim>\<open>HAVING (...) > 0\<close> on the groups, then
  \<^verbatim>\<open>ORDER BY score DESC, s.plays DESC\<close>, the pair of keys compared lexicographically.
\<close>

definition get_recommendations :: "db \<Rightarrow> string \<Rightarrow> recommendation list" where
  "get_recommendations d username =
     order_by_desc (\<lambda>r. (r_score r, r_plays r))
       (map rec_select (filter (\<lambda>(k, rows). rec_score rows > 0) (rec_groups d username)))"

section \<open>Example stores\<close>

definition empty_db :: db where
  "empty_db = \<lparr>User = [], Song = [], Artist = [], Album = [], Genre = [], Classification = [],
     Playlist = [], UserLike = [], TopChart = [], ChartEntry = []\<rparr>"

definition mk_song :: "string \<Rightarrow> string \<Rightarrow> string \<Rightarrow> int \<Rightarrow> song" where
  "mk_song t a al p =
     \<lparr>songTitle = t, artistName = a, albumTitle = al, duration = 180, plays = p\<rparr>"

definition mk_class :: "string \<Rightarrow> string \<Rightarrow> string \<Rightarrow> string \<Rightarrow> classification" where
  "mk_class t a al g =
     \<lparr>c_songTitle = t, c_artistName = a, c_albumTitle = al, c_genreName = g\<rparr>"

definition mk_like :: "string \<Rightarrow> string \<Rightarrow> string \<Rightarrow> string \<Rightarrow> userlike" where
  "mk_like u t a al =
     \<lparr>ul_username = u, ul_songTitle = t, ul_artistName = a, ul_albumTitle = al,
      ul_likeDate = 1\<rparr>"

definition mk_rec ::
  "string \<Rightarrow> string \<Rightarrow> string \<Rightarrow> int \<Rightarrow> string \<Rightarrow> int \<Rightarrow> recommendation" where
  "mk_rec t a al p g sc =
     \<lparr>r_songTitle = t, r_artistName = a, r_albumTitle = al, r_duration = 180,
      r_plays = p, r_genreName = g, r_score = sc\<rparr>"

text \<open>
  A catalogue of eight songs, seven of them classified. \<open>ann\<close> likes \<open>One\<close> and \<open>Two\<close>,
  both by artist \<open>X\<close> and both \<open>Rock\<close>, from the albums \<open>A1\<close> and \<open>A2\<close>.
\<close>

definition rec_db :: db where
  "rec_db = empty_db\<lparr>
     Song := [mk_song ''One'' ''X'' ''A1'' 50, mk_song ''Two'' ''X'' ''A2'' 40,
              mk_song ''Three'' ''X'' ''A3'' 30, mk_song ''Four'' ''X'' ''A1'' 20,
              mk_song ''Five'' ''X'' ''A1'' 10, mk_song ''Six'' ''W'' ''B1'' 99,
              mk_song ''Seven'' ''W'' ''B1'' 98, mk_song ''Eight'' ''X'' ''A9'' 97],
     Classification :=
             [mk_class ''One'' ''X'' ''A1'' ''Rock'', mk_class ''Two'' ''X'' ''A2'' ''Rock'',
              mk_class ''Three'' ''X'' ''A3'' ''Pop'', mk_class ''Four'' ''X'' ''A1'' ''Jazz'',
              mk_class ''Five'' ''X'' ''A1'' ''Rock'', mk_class ''Six'' ''W'' ''B1'' ''Rock'',
              mk_class ''Seven'' ''W'' ''B1'' ''Pop''],
     UserLike := [mk_like ''ann'' ''One'' ''X'' ''A1'', mk_like ''ann'' ''Two'' ''X'' ''A2'',
                  mk_like ''bob'' ''Seven'' ''W'' ''B1'']\<rparr>"


text \<open>A store with one song, one like of \<open>bob\<close> and one playlist of \<open>bob\<close>.\<close>

definition small_db :: db where
  "small_db = empty_db\<lparr>
     Song := [mk_song ''Hello'' ''Adele'' ''25'' 900],
     Playlist := [\<lparr>p_name = ''Mix'', p_username = ''bob'', p_creationDate = 2\<rparr>],
     UserLike := [mk_like ''bob'' ''Hello'' ''Adele'' ''25'']\<rparr>"

text \<open>Two charts; \<open>Hot\<close> has three dates, entries on two of them.\<close>

definition charts_db :: db where
  "charts_db = empty_db\<lparr>
     Song := [mk_song ''One'' ''X'' ''A1'' 50, mk_song ''Two'' ''X'' ''A2'' 40,
              mk_song ''Three'' ''X'' ''A3'' 30],
     TopChart := [\<lparr>tc_chartName = ''Hot'', tc_chartDate = 10\<rparr>,
                  \<lparr>tc_chartName = ''Hot'', tc_chartDate = 30\<rparr>,
                  \<lparr>tc_chartName = ''Indie'', tc_chartDate = 20\<rparr>,
                  \<lparr>tc_chartName = ''Hot'', tc_chartDate = 20\<rparr>],
     ChartEntry := [\<lparr>ce_chartName = ''Hot'', ce_chartDate = 10, ce_songTitle = ''Three'',
                      ce_artistName = ''X'', ce_albumTitle = ''A3''\<rparr>,
                    \<lparr>ce_chartName = ''Hot'', ce_chartDate = 10, ce_songTitle = ''One'',
                      ce_artistName = ''X'', ce_albumTitle = ''A1''\<rparr>,
                    \<lparr>ce_chartName = ''Hot'', ce_chartDate = 30, ce_songTitle = ''Two'',
                      ce_artistName = ''X'', ce_albumTitle = ''A2''\<rparr>]\<rparr>"

text \<open>
  Two songs called \<open>Hello\<close>, one more song, each with its artist, album, genre and
  classification, and \<open>Demo\<close>, a song with no classification. \<open>bob\<close> likes Adele's \<open>Hello\<close>.
\<close>

definition search_db :: db where
  "search_db = empty_db\<lparr>
     Song := [mk_song ''Hello'' ''Adele'' ''25'' 900,
              mk_song ''Hello'' ''Lionel Richie'' ''Cant Slow Down'' 700,
              mk_song ''Yellow'' ''Coldplay'' ''Parachutes'' 800,
              mk_song ''Demo'' ''Coldplay'' ''Parachutes'' 5],
     Artist := [''Adele'', ''Lionel Richie'', ''Coldplay''],
     Album := [(''25'', ''Adele''), (''Cant Slow Down'', ''Lionel Richie''),
               (''Parachutes'', ''Coldplay'')],
     Genre := [''Pop'', ''Soul'', ''Rock''],
     Classification :=
       [mk_class ''Hello'' ''Adele'' ''25'' ''Pop'',
        mk_class ''Hello'' ''Lionel Richie'' ''Cant Slow Down'' ''Soul'',
        mk_class ''Yellow'' ''Coldplay'' ''Parachutes'' ''Rock''],
     UserLike := [mk_like ''bob'' ''Hello'' ''Adele'' ''25'']\<rparr>"

definition mk_row :: "string \<Rightarrow> string \<Rightarrow> string \<Rightarrow> string \<Rightarrow> int \<Rightarrow> search_row" where
  "mk_row t a al g p =
     \<lparr>sr_songTitle = t, sr_artistName = a, sr_albumTitle = al, sr_genreName = g,
      sr_plays = p, sr_duration = 180\<rparr>"

text \<open>A query string with \<open>sortOrder\<close> and \<open>liked\<close> only.\<close>

definition mk_query :: "string option \<Rightarrow> string option \<Rightarrow> search_query" where
  "mk_query so lk =
     \<lparr>q_songTitle = None, q_artistName = None, q_albumTitle = None, q_genreName = None,
      q_sortOrder = so, q_liked = lk\<rparr>"

text \<open>A request as it arrives: a token or none, no identity attached yet.\<close>

definition mk_request :: "string option \<Rightarrow> search_query \<Rightarrow> request" where
  "mk_request tok q = \<lparr>req_token = tok, req_user = None, req_query = q\<rparr>"

text \<open>A verifier that accepts one token, \<open>bob\<close>'s, and rejects every other one.\<close>

definition example_verify :: "string \<Rightarrow> string + identity option" where
  "example_verify token =
     (if token = ''tok-bob'' then Inr (Some \<lparr>id_id = ''bob'', id_email = ''bob@example.org''\<rparr>)
      else Inl ''jwt malformed'')"

text \<open>A \<^verbatim>\<open>LIKE\<close> for requests without text filters, where it is never asked.\<close>

definition no_like :: "string \<Rightarrow> string \<Rightarrow> bool" where
  "no_like v p = False"

text \<open>
  One registered user. The example hash of a password is the password behind \<open>h:\<close>; like
  \<^verbatim>\<open>bcrypt.compare\<close>, the example comparison rejects a password that is not a string. The
  example token of an identity is its username behind \<open>tok-\<close>, and the example store finds
  no user for a parameter that is not a string.
\<close>

definition users_db :: db where
  "users_db = empty_db\<lparr>
     User := [\<lparr>u_username = ''bob'', u_email = ''bob@example.org'', u_password = ''h:secret'',
               u_bio = None\<rparr>]\<rparr>"

definition example_compare :: "json \<Rightarrow> string \<Rightarrow> string + bool" where
  "example_compare password hash =
     (case password of
        JStr p \<Rightarrow> Inr (hash = ''h:'' @ p)
      | _ \<Rightarrow> Inl ''data and hash must be strings'')"

definition example_sign :: "identity \<Rightarrow> string + string" where
  "example_sign i = Inr (''tok-'' @ id_id i)"

definition no_rows :: "json \<Rightarrow> user_row list \<Rightarrow> string + user_row list" where
  "no_rows v users = Inr []"

section \<open>ORDER BY: proofs\<close>

lemma order_by_desc_sorted: "sorted_wrt (\<lambda>x y. k y \<le> k x) (order_by_desc k xs)"
proof -
  have "sorted (map k (sort_key k xs))" by simp
  then have "sorted_wrt (\<lambda>x y. k x \<le> k y) (sort_key k xs)"
    by (simp add: sorted_wrt_map)
  then show ?thesis
    by (simp add: order_by_desc_def sorted_wrt_rev)
qed

lemma order_by_asc_sorted: "sorted_wrt (\<lambda>x y. k x \<le> k y) (order_by_asc k xs)"
proof -
  have "sorted (map k (sort_key k xs))" by simp
  then show ?thesis
    by (simp add: order_by_asc_def sorted_wrt_map)
qed

lemma mset_order_by_desc: "mset (order_by_desc k xs) = mset xs"
  by (simp add: order_by_desc_def)

lemma order_by_desc_Nil: "order_by_desc k xs = [] \<longleftrightarrow> xs = []"
proof -
  have "length (order_by_desc k xs) = length xs"
    by (simp add: order_by_desc_def)
  then show ?thesis
    by (metis length_0_conv)
qed

lemma set_order_by_desc: "set (order_by_desc k xs) = set xs"
  by (simp add: order_by_desc_def)

lemma set_order_by_asc: "set (order_by_asc k xs) = set xs"
  by (simp add: order_by_asc_def)

section \<open>Likes: proofs\<close>

lemma filter_none_id: "filter P xs = [] \<Longrightarrow> filter (\<lambda>l. \<not> P l) xs = xs"
  by (induction xs) (auto split: if_splits)

lemma filter_not_append_hit:
  "P x \<Longrightarrow> filter P xs = [] \<Longrightarrow> filter (\<lambda>l. \<not> P l) (xs @ [x]) = xs"
  by (simp add: filter_none_id)

lemma small_db_rows:
  "song_rows small_db ''Hello'' ''Adele'' ''25'' = [mk_song ''Hello'' ''Adele'' ''25'' 900]"
  "song_rows small_db ''Nope'' ''Adele'' ''25'' = []"
  "song_rows small_db [] ''Adele'' ''25'' = []"
  "like_rows small_db ''ann'' ''Hello'' ''Adele'' ''25'' = []"
  "like_rows small_db ''ann'' [] ''Adele'' ''25'' = []"
  "like_rows small_db ''bob'' ''Hello'' ''Adele'' ''25'' = [mk_like ''bob'' ''Hello'' ''Adele'' ''25'']"
  by (simp_all add: small_db_def empty_db_def song_rows_def like_rows_def
        is_like_of_def mk_song_def mk_like_def)

text \<open>
  C3, amended. A like or an unlike in which one of the three components of the song triple
  is missing or empty is answered 400 \<open>Please provide songTitle, artistName, and
  albumTitle.\<close> and leaves the store as it was. For a triple whose three components are
  not empty: liking answers 404 \<open>Song not found.\<close> when the catalogue has no such song, 400
  \<open>Song is already liked.\<close> when the caller's like of it is in UserLike, and otherwise 201
  and appends exactly that UserLike row; unliking answers 404 when the caller's like is
  not in UserLike and otherwise 200 and removes the rows of that caller and song, and no
  other row. The failing replies leave the store as it was.
\<close>

theorem likes_outcomes:
  "((f = None \<or> f = Some [] \<or> g = None \<or> g = Some [] \<or> h = None \<or> h = Some []) \<longrightarrow>
        post_likes d now u f g h =
          (\<lparr>status = 400,
            message = ''Please provide songTitle, artistName, and albumTitle.''\<rparr>, d)
      \<and> delete_likes d u f g h =
          (\<lparr>status = 400,
            message = ''Please provide songTitle, artistName, and albumTitle.''\<rparr>, d))
   \<and> (t \<noteq> [] \<and> a \<noteq> [] \<and> al \<noteq> [] \<longrightarrow>
        (song_rows d t a al = [] \<longrightarrow>
            post_likes d now u (Some t) (Some a) (Some al) =
              (\<lparr>status = 404, message = ''Song not found.''\<rparr>, d))
       \<and> (song_rows d t a al \<noteq> [] \<and> like_rows d u t a al \<noteq> [] \<longrightarrow>
            post_likes d now u (Some t) (Some a) (Some al) =
              (\<lparr>status = 400, message = ''Song is already liked.''\<rparr>, d))
       \<and> (song_rows d t a al \<noteq> [] \<and> like_rows d u t a al = [] \<longrightarrow>
            post_likes d now u (Some t) (Some a) (Some al) =
              (\<lparr>status = 201, message = ''Song liked successfully.''\<rparr>,
               d\<lparr>UserLike := UserLike d @
                 [\<lparr>ul_username = u, ul_songTitle = t, ul_artistName = a,
                   ul_albumTitle = al, ul_likeDate = now\<rparr>]\<rparr>))
       \<and> (like_rows d u t a al = [] \<longrightarrow>
            delete_likes d u (Some t) (Some a) (Some al) =
              (\<lparr>status = 404, message = ''Song is not in your liked songs.''\<rparr>, d))
       \<and> (like_rows d u t a al \<noteq> [] \<longrightarrow>
            delete_likes d u (Some t) (Some a) (Some al) =
              (\<lparr>status = 200, message = ''Song unliked successfully.''\<rparr>,
               d\<lparr>UserLike := filter (\<lambda>l. \<not> is_like_of u t a al l) (UserLike d)\<rparr>)))"
proof (intro conjI impI)
  assume "f = None \<or> f = Some [] \<or> g = None \<or> g = Some [] \<or> h = None \<or> h = Some []"
  then have guard: "\<not> (truthy f \<and> truthy g \<and> truthy h)"
    by auto
  show "post_likes d now u f g h =
          (\<lparr>status = 400,
            message = ''Please provide songTitle, artistName, and albumTitle.''\<rparr>, d)"
    using guard by (simp add: post_likes_def)
  show "delete_likes d u f g h =
          (\<lparr>status = 400,
            message = ''Please provide songTitle, artistName, and albumTitle.''\<rparr>, d)"
    using guard by (simp add: delete_likes_def)
qed (simp_all add: post_likes_def delete_likes_def)

theorem likes_outcomes_witness:
  "post_likes small_db 7 ''ann'' None (Some ''Adele'') (Some ''25'') =
     (\<lparr>status = 400, message = ''Please provide songTitle, artistName, and albumTitle.''\<rparr>,
      small_db)
   \<and> delete_likes small_db ''bob'' (Some ''Hello'') (Some ''Adele'') (Some []) =
     (\<lparr>status = 400, message = ''Please provide songTitle, artistName, and albumTitle.''\<rparr>,
      small_db)
   \<and> post_likes small_db 7 ''ann'' (Some ''Nope'') (Some ''Adele'') (Some ''25'') =
     (\<lparr>status = 404, message = ''Song not found.''\<rparr>, small_db)
   \<and> post_likes small_db 7 ''bob'' (Some ''Hello'') (Some ''Adele'') (Some ''25'') =
     (\<lparr>status = 400, message = ''Song is already liked.''\<rparr>, small_db)
   \<and> UserLike (snd (post_likes small_db 7 ''ann'' (Some ''Hello'') (Some ''Adele'') (Some ''25''))) =
     [mk_like ''bob'' ''Hello'' ''Adele'' ''25'',
      \<lparr>ul_username = ''ann'', ul_songTitle = ''Hello'', ul_artistName = ''Adele'',
        ul_albumTitle = ''25'', ul_likeDate = 7\<rparr>]
   \<and> delete_likes small_db ''ann'' (Some ''Hello'') (Some ''Adele'') (Some ''25'') =
     (\<lparr>status = 404, message = ''Song is not in your liked songs.''\<rparr>, small_db)
   \<and> UserLike (snd (delete_likes small_db ''bob'' (Some ''Hello'') (Some ''Adele'') (Some ''25''))) = []"
proof -
  have ne: "''Hello'' \<noteq> [] \<and> ''Adele'' \<noteq> [] \<and> ''25'' \<noteq> []"
    "''Nope'' \<noteq> [] \<and> ''Adele'' \<noteq> [] \<and> ''25'' \<noteq> []"
    by simp_all
  note missing = likes_outcomes[of None "Some ''Adele''" "Some ''25''" small_db 7 "''ann''",
      THEN conjunct1]
  note empty = likes_outcomes[of "Some ''Hello''" "Some ''Adele''" "Some []" small_db 7 "''bob''",
      THEN conjunct1]
  note nope = likes_outcomes[of _ _ _ small_db 7 "''ann''" "''Nope''" "''Adele''" "''25''",
      THEN conjunct2, THEN mp, OF ne(2)]
  note ann = likes_outcomes[of _ _ _ small_db 7 "''ann''" "''Hello''" "''Adele''" "''25''",
      THEN conjunct2, THEN mp, OF ne(1)]
  note bob = likes_outcomes[of _ _ _ small_db 7 "''bob''" "''Hello''" "''Adele''" "''25''",
      THEN conjunct2, THEN mp, OF ne(1)]
  have "post_likes small_db 7 ''ann'' None (Some ''Adele'') (Some ''25'') =
     (\<lparr>status = 400, message = ''Please provide songTitle, artistName, and albumTitle.''\<rparr>,
      small_db)"
    using missing by simp
  moreover have "delete_likes small_db ''bob'' (Some ''Hello'') (Some ''Adele'') (Some []) =
     (\<lparr>status = 400, message = ''Please provide songTitle, artistName, and albumTitle.''\<rparr>,
      small_db)"
    using empty by simp
  moreover have "post_likes small_db 7 ''ann'' (Some ''Nope'') (Some ''Adele'') (Some ''25'') =
     (\<lparr>status = 404, message = ''Song not found.''\<rparr>, small_db)"
    using nope by (simp add: small_db_rows)
  moreover have "post_likes small_db 7 ''bob'' (Some ''Hello'') (Some ''Adele'') (Some ''25'') =
     (\<lparr>status = 400, message = ''Song is already liked.''\<rparr>, small_db)"
    using bob by (simp add: small_db_rows)
  moreover have "UserLike (snd (post_likes small_db 7 ''ann'' (Some ''Hello'') (Some ''Adele'') (Some ''25''))) =
     [mk_like ''bob'' ''Hello'' ''Adele'' ''25'',
      \<lparr>ul_username = ''ann'', ul_songTitle = ''Hello'', ul_artistName = ''Adele'',
        ul_albumTitle = ''25'', ul_likeDate = 7\<rparr>]"
    using ann by (simp add: small_db_rows) (simp add: small_db_def)
  moreover have "delete_likes small_db ''ann'' (Some ''Hello'') (Some ''Adele'') (Some ''25'') =
     (\<lparr>status = 404, message = ''Song is not in your liked songs.''\<rparr>, small_db)"
    using ann by (simp add: small_db_rows)
  moreover have "UserLike (snd (delete_likes small_db ''bob'' (Some ''Hello'') (Some ''Adele'') (Some ''25''))) = []"
    using bob by (simp add: small_db_rows) (simp add: small_db_def is_like_of_def mk_like_def)
  ultimately show ?thesis by blast
qed

text \<open>
  C3 as stated fails at a triple with an empty component: no song has the title \<open>''''\<close> and
  the caller has no like of it, yet both operations answer 400 with the message about
  missing fields, not 404.
\<close>

theorem likes_empty_title_counterexample:
  "song_rows small_db [] ''Adele'' ''25'' = []
   \<and> like_rows small_db ''ann'' [] ''Adele'' ''25'' = []
   \<and> post_likes small_db 7 ''ann'' (Some []) (Some ''Adele'') (Some ''25'') =
       (\<lparr>status = 400, message = ''Please provide songTitle, artistName, and albumTitle.''\<rparr>,
        small_db)
   \<and> delete_likes small_db ''ann'' (Some []) (Some ''Adele'') (Some ''25'') =
       (\<lparr>status = 400, message = ''Please provide songTitle, artistName, and albumTitle.''\<rparr>,
        small_db)"
  by (simp add: small_db_rows post_likes_def delete_likes_def)

text \<open>
  C4. From any store in which the song exists and the caller has no like of it, liking and
  then unliking the song gives back the starting store, UserLike included.
\<close>

theorem like_unlike_roundtrip:
  assumes "song_rows d t a al \<noteq> []" and "like_rows d u t a al = []"
  shows "snd (delete_likes (snd (post_likes d now u (Some t) (Some a) (Some al))) u
            (Some t) (Some a) (Some al)) = d"
proof (cases "t \<noteq> [] \<and> a \<noteq> [] \<and> al \<noteq> []")
  case False
  then show ?thesis
    by (auto simp: post_likes_def delete_likes_def)
next
  case True
  let ?row = "\<lparr>ul_username = u, ul_songTitle = t, ul_artistName = a,
                ul_albumTitle = al, ul_likeDate = now\<rparr>"
  have hit: "is_like_of u t a al ?row"
    by (simp add: is_like_of_def)
  have none: "filter (is_like_of u t a al) (UserLike d) = []"
    using assms(2) by (simp add: like_rows_def)
  have restored: "filter (\<lambda>l. \<not> is_like_of u t a al l) (UserLike d @ [?row]) = UserLike d"
    using hit none by (rule filter_not_append_hit)
  have liked: "post_likes d now u (Some t) (Some a) (Some al) =
      (\<lparr>status = 201, message = ''Song liked successfully.''\<rparr>,
       d\<lparr>UserLike := UserLike d @ [?row]\<rparr>)"
    using True assms by (simp add: post_likes_def)
  have "like_rows (d\<lparr>UserLike := UserLike d @ [?row]\<rparr>) u t a al \<noteq> []"
    using hit by (simp add: like_rows_def)
  then show ?thesis
    using True liked restored by (simp add: delete_likes_def)
qed

theorem like_unlike_roundtrip_witness:
  "song_rows small_db ''Hello'' ''Adele'' ''25'' \<noteq> []
   \<and> like_rows small_db ''ann'' ''Hello'' ''Adele'' ''25'' = []
   \<and> length (UserLike (snd (post_likes small_db 7 ''ann''
                (Some ''Hello'') (Some ''Adele'') (Some ''25'')))) = 2
   \<and> snd (delete_likes (snd (post_likes small_db 7 ''ann''
                (Some ''Hello'') (Some ''Adele'') (Some ''25''))) ''ann''
            (Some ''Hello'') (Some ''Adele'') (Some ''25'')) = small_db"
proof -
  have h1: "song_rows small_db ''Hello'' ''Adele'' ''25'' \<noteq> []"
    and h2: "like_rows small_db ''ann'' ''Hello'' ''Adele'' ''25'' = []"
    by (simp_all add: small_db_rows)
  have "length (UserLike (snd (post_likes small_db 7 ''ann''
                (Some ''Hello'') (Some ''Adele'') (Some ''25'')))) = 2"
    by (simp add: post_likes_def small_db_rows) (simp add: small_db_def)
  then show ?thesis
    using h1 h2 like_unlike_roundtrip[OF h1 h2, of 7] by simp
qed

section \<open>Playlists: proofs\<close>

lemma small_db_playlists:
  "playlist_rows small_db ''Mix'' ''bob'' = [\<lparr>p_name = ''Mix'', p_username = ''bob'', p_creationDate = 2\<rparr>]"
  "playlist_rows small_db ''Mix'' ''ann'' = []"
  "playlist_rows small_db ''Mix'' ''cat'' = []"
  "playlist_rows small_db [] ''ann'' = []"
  by (simp_all add: small_db_def empty_db_def playlist_rows_def)

lemma playlist_rows_append:
  "playlist_rows (d\<lparr>Playlist := Playlist d @ [\<lparr>p_name = n, p_username = u, p_creationDate = now\<rparr>]\<rparr>) n' u' =
     playlist_rows d n' u' @ (if n = n' \<and> u = u' then [\<lparr>p_name = n, p_username = u, p_creationDate = now\<rparr>] else [])"
  by (simp add: playlist_rows_def)

text \<open>
  C5, amended. Creating a playlist with a missing or empty name is answered 400
  \<open>Please provide a playlist name.\<close> and inserts nothing. For a playlist name that is not
  empty: creating it answers 400 \<open>Playlist with this name already exists.\<close> exactly when the
  caller already has a playlist of that name, and otherwise answers 201 and appends the
  playlist with the current timestamp. Creating the same name twice for one user makes the
  second creation fail that way; two different users who both lack the name both succeed.
\<close>

theorem playlist_create_outcomes:
  "((f = None \<or> f = Some []) \<longrightarrow>
        post_playlists d now u f =
          (\<lparr>status = 400, message = ''Please provide a playlist name.''\<rparr>, d))
   \<and> (n \<noteq> [] \<longrightarrow>
         (playlist_rows d n u \<noteq> [] \<longrightarrow>
            post_playlists d now u (Some n) =
              (\<lparr>status = 400, message = ''Playlist with this name already exists.''\<rparr>, d))
       \<and> (playlist_rows d n u = [] \<longrightarrow>
            post_playlists d now u (Some n) =
              (\<lparr>status = 201, message = ''Playlist created successfully.''\<rparr>,
               d\<lparr>Playlist := Playlist d @
                 [\<lparr>p_name = n, p_username = u, p_creationDate = now\<rparr>]\<rparr>))
       \<and> fst (post_playlists (snd (post_playlists d now u (Some n))) now' u (Some n)) =
            \<lparr>status = 400, message = ''Playlist with this name already exists.''\<rparr>
       \<and> (u \<noteq> u' \<and> playlist_rows d n u = [] \<and> playlist_rows d n u' = [] \<longrightarrow>
            fst (post_playlists d now u (Some n)) =
              \<lparr>status = 201, message = ''Playlist created successfully.''\<rparr>
          \<and> fst (post_playlists (snd (post_playlists d now u (Some n))) now' u' (Some n)) =
              \<lparr>status = 201, message = ''Playlist created successfully.''\<rparr>))"
proof (intro conjI impI)
  show "post_playlists d now u f =
      (\<lparr>status = 400, message = ''Please provide a playlist name.''\<rparr>, d)"
    if "f = None \<or> f = Some []"
    using that by (auto simp: post_playlists_def)
  assume ne: "n \<noteq> []"
  show "post_playlists d now u (Some n) =
      (\<lparr>status = 400, message = ''Playlist with this name already exists.''\<rparr>, d)"
    if "playlist_rows d n u \<noteq> []"
    using that ne by (simp add: post_playlists_def)
  show "post_playlists d now u (Some n) =
      (\<lparr>status = 201, message = ''Playlist created successfully.''\<rparr>,
       d\<lparr>Playlist := Playlist d @ [\<lparr>p_name = n, p_username = u, p_creationDate = now\<rparr>]\<rparr>)"
    if "playlist_rows d n u = []"
    using that ne by (simp add: post_playlists_def)
  show "fst (post_playlists (snd (post_playlists d now u (Some n))) now' u (Some n)) =
      \<lparr>status = 400, message = ''Playlist with this name already exists.''\<rparr>"
    using ne by (simp add: post_playlists_def playlist_rows_append)
  show "fst (post_playlists d now u (Some n)) =
      \<lparr>status = 201, message = ''Playlist created successfully.''\<rparr>"
    if "u \<noteq> u' \<and> playlist_rows d n u = [] \<and> playlist_rows d n u' = []"
    using that ne by (simp add: post_playlists_def)
  show "fst (post_playlists (snd (post_playlists d now u (Some n))) now' u' (Some n)) =
      \<lparr>status = 201, message = ''Playlist created successfully.''\<rparr>"
    if "u \<noteq> u' \<and> playlist_rows d n u = [] \<and> playlist_rows d n u' = []"
    using that ne by (simp add: post_playlists_def playlist_rows_append)
qed

theorem playlist_create_outcomes_witness:
  "post_playlists small_db 5 ''ann'' None =
     (\<lparr>status = 400, message = ''Please provide a playlist name.''\<rparr>, small_db)
   \<and> post_playlists small_db 5 ''bob'' (Some ''Mix'') =
     (\<lparr>status = 400, message = ''Playlist with this name already exists.''\<rparr>, small_db)
   \<and> map p_username (Playlist (snd (post_playlists small_db 5 ''ann'' (Some ''Mix'')))) =
       [''bob'', ''ann'']
   \<and> map p_creationDate (Playlist (snd (post_playlists small_db 5 ''ann'' (Some ''Mix'')))) =
       [2, 5]
   \<and> status (fst (post_playlists (snd (post_playlists small_db 5 ''ann'' (Some ''Mix''))) 6
                    ''ann'' (Some ''Mix''))) = 400
   \<and> status (fst (post_playlists small_db 5 ''ann'' (Some ''Mix''))) = 201
   \<and> status (fst (post_playlists (snd (post_playlists small_db 5 ''ann'' (Some ''Mix''))) 6
                    ''cat'' (Some ''Mix''))) = 201"
proof -
  have ne: "''Mix'' \<noteq> []" by simp
  note missing = playlist_create_outcomes[of None small_db 5 "''ann''", THEN conjunct1]
  note bob = playlist_create_outcomes[of _ small_db 5 "''bob''" "''Mix''" 6 "''bob''",
      THEN conjunct2, THEN mp, OF ne]
  note ann = playlist_create_outcomes[of _ small_db 5 "''ann''" "''Mix''" 6 "''cat''",
      THEN conjunct2, THEN mp, OF ne]
  have m: "post_playlists small_db 5 ''ann'' None =
     (\<lparr>status = 400, message = ''Please provide a playlist name.''\<rparr>, small_db)"
    using missing by simp
  have "post_playlists small_db 5 ''bob'' (Some ''Mix'') =
     (\<lparr>status = 400, message = ''Playlist with this name already exists.''\<rparr>, small_db)"
    using bob by (simp add: small_db_playlists)
  moreover have e: "post_playlists small_db 5 ''ann'' (Some ''Mix'') =
     (\<lparr>status = 201, message = ''Playlist created successfully.''\<rparr>,
      small_db\<lparr>Playlist := Playlist small_db @
         [\<lparr>p_name = ''Mix'', p_username = ''ann'', p_creationDate = 5\<rparr>]\<rparr>)"
    using ann by (simp add: small_db_playlists)
  moreover have "map p_username (Playlist (snd (post_playlists small_db 5 ''ann'' (Some ''Mix'')))) =
       [''bob'', ''ann'']"
    and "map p_creationDate (Playlist (snd (post_playlists small_db 5 ''ann'' (Some ''Mix'')))) = [2, 5]"
    unfolding e by (simp_all add: small_db_def)
  moreover have "status (fst (post_playlists (snd (post_playlists small_db 5 ''ann'' (Some ''Mix''))) 6
                    ''ann'' (Some ''Mix''))) = 400"
    using ann by simp
  moreover have "status (fst (post_playlists (snd (post_playlists small_db 5 ''ann'' (Some ''Mix''))) 6
                    ''cat'' (Some ''Mix''))) = 201"
  proof -
    have "''ann'' \<noteq> ''cat'' \<and> playlist_rows small_db ''Mix'' ''ann'' = []
          \<and> playlist_rows small_db ''Mix'' ''cat'' = []"
      by (simp add: small_db_playlists)
    with ann have "fst (post_playlists (snd (post_playlists small_db 5 ''ann'' (Some ''Mix''))) 6
          ''cat'' (Some ''Mix'')) = \<lparr>status = 201, message = ''Playlist created successfully.''\<rparr>"
      by blast
    then show ?thesis by simp
  qed
  ultimately show ?thesis using m by simp
qed

text \<open>
  C5 as stated fails at the empty name: the caller has no playlist of that name, yet the
  creation answers 400 about the missing name and inserts nothing.
\<close>

theorem playlist_empty_name_counterexample:
  "playlist_rows small_db [] ''ann'' = []
   \<and> post_playlists small_db 5 ''ann'' (Some []) =
       (\<lparr>status = 400, message = ''Please provide a playlist name.''\<rparr>, small_db)"
  by (simp add: small_db_playlists post_playlists_def)

section \<open>Recommendations: proofs\<close>

lemma set_left_join:
  "(x, v) \<in> set (left_join xs ys on) \<longleftrightarrow>
     x \<in> set xs \<and> (case v of Some y \<Rightarrow> y \<in> set ys \<and> on x y | None \<Rightarrow> filter (on x) ys = [])"
  by (cases v) (auto simp: left_join_def filter_empty_conv)

lemma set_group_by:
  "(k, rows) \<in> set (group_by key xs) \<longleftrightarrow> k \<in> key ` set xs \<and> rows = filter (\<lambda>r. key r = k) xs"
  by (auto simp: group_by_def)

lemma count_distinct_const:
  assumes "rows \<noteq> []" and "\<forall>r\<in>set rows. col r = v"
  shows "count_distinct col rows = (case v of None \<Rightarrow> 0 | Some y \<Rightarrow> 1)"
proof -
  have s: "set (List.map_filter col rows) = (case v of None \<Rightarrow> {} | Some y \<Rightarrow> {y})"
    using assms by (cases rows; cases v) (auto simp: map_filter_def image_iff)
  have "length (remdups (List.map_filter col rows)) = card (set (List.map_filter col rows))"
    by (simp add: length_remdups_card_conv)
  then show ?thesis
    unfolding count_distinct_def s by (cases v) simp_all
qed

lemma left_join_eq_col:
  "(x, v) \<in> set (left_join xs ys (\<lambda>x y. f x = y)) \<longleftrightarrow>
     x \<in> set xs \<and> v = (if f x \<in> set ys then Some (f x) else None)"
  by (cases v) (auto simp: set_left_join filter_empty_conv)

lemma rec_from_iff:
  "((((s, c), a), al), g) \<in> set (rec_from d u) \<longleftrightarrow>
     s \<in> set (Song d) \<and> c \<in> set (Classification d) \<and> classified s c
     \<and> a = (if artistName s \<in> set (liked_artists d u) then Some (artistName s) else None)
     \<and> al = (if albumTitle s \<in> set (liked_albums d u) then Some (albumTitle s) else None)
     \<and> g = (if c_genreName c \<in> set (liked_genres d u) then Some (c_genreName c) else None)"
proof -
  have e1: "(\<lambda>(s, c) a. artistName s = a) = (\<lambda>x y. artistName (fst x) = y)"
    by (simp add: fun_eq_iff)
  have e2: "(\<lambda>((s, c), a) al. albumTitle s = al) = (\<lambda>x y. albumTitle (fst (fst x)) = y)"
    by (simp add: fun_eq_iff)
  have e3: "(\<lambda>(((s, c), a), al) g. c_genreName c = g) = (\<lambda>x y. c_genreName (snd (fst (fst x))) = y)"
    by (simp add: fun_eq_iff)
  show ?thesis
    unfolding rec_from_def e1 e2 e3 left_join_eq_col
    by auto
qed

lemma rec_from_row:
  assumes "x \<in> set (rec_from d u)" and "rec_key x = (s, gn)"
  shows "col_a x = (if artistName s \<in> set (liked_artists d u) then Some (artistName s) else None)"
    and "col_al x = (if albumTitle s \<in> set (liked_albums d u) then Some (albumTitle s) else None)"
    and "col_g x = (if gn \<in> set (liked_genres d u) then Some gn else None)"
    and "s \<in> set (Song d)"
    and "\<exists>c\<in>set (Classification d). classified s c \<and> c_genreName c = gn"
    and "rec_where d u x \<Longrightarrow> like_rows d u (songTitle s) (artistName s) (albumTitle s) = []"
proof -
  obtain s' c a al g where xe: "x = ((((s', c), a), al), g)"
    by (metis surj_pair)
  from assms(2) have k: "s' = s" "c_genreName c = gn"
    by (simp_all add: xe rec_key_def)
  from assms(1) have m: "s \<in> set (Song d)" "c \<in> set (Classification d)"
      "classified s c"
      "a = (if artistName s \<in> set (liked_artists d u) then Some (artistName s) else None)"
      "al = (if albumTitle s \<in> set (liked_albums d u) then Some (albumTitle s) else None)"
      "g = (if gn \<in> set (liked_genres d u) then Some gn else None)"
    unfolding xe rec_from_iff k[symmetric] by simp_all
  show "col_a x = (if artistName s \<in> set (liked_artists d u) then Some (artistName s) else None)"
    using m(4) by (simp add: xe col_a_def)
  show "col_al x = (if albumTitle s \<in> set (liked_albums d u) then Some (albumTitle s) else None)"
    using m(5) by (simp add: xe col_al_def)
  show "col_g x = (if gn \<in> set (liked_genres d u) then Some gn else None)"
    using m(6) by (simp add: xe col_g_def)
  show "s \<in> set (Song d)" by (rule m(1))
  show "\<exists>c\<in>set (Classification d). classified s c \<and> c_genreName c = gn"
    using m(2,3) k(2) by blast
  show "rec_where d u x \<Longrightarrow> like_rows d u (songTitle s) (artistName s) (albumTitle s) = []"
    by (simp add: xe rec_where_def k)
qed

lemma rec_groups_rows:
  assumes "((s, gn), rows) \<in> set (rec_groups d u)"
  shows "rows \<noteq> []"
    and "\<forall>r\<in>set rows. col_a r = (if artistName s \<in> set (liked_artists d u) then Some (artistName s) else None)"
    and "\<forall>r\<in>set rows. col_al r = (if albumTitle s \<in> set (liked_albums d u) then Some (albumTitle s) else None)"
    and "\<forall>r\<in>set rows. col_g r = (if gn \<in> set (liked_genres d u) then Some gn else None)"
    and "s \<in> set (Song d)"
    and "\<exists>c\<in>set (Classification d). classified s c \<and> c_genreName c = gn"
    and "like_rows d u (songTitle s) (artistName s) (albumTitle s) = []"
proof -
  let ?W = "filter (rec_where d u) (rec_from d u)"
  from assms have k: "(s, gn) \<in> rec_key ` set ?W"
    and r: "rows = filter (\<lambda>r. rec_key r = (s, gn)) ?W"
    by (simp_all add: rec_groups_def set_group_by)
  from k obtain x where x: "x \<in> set (rec_from d u)" "rec_where d u x" "rec_key x = (s, gn)"
    by auto
  then have "x \<in> set rows" using r by simp
  then show "rows \<noteq> []" by auto
  have mem: "\<And>y. y \<in> set rows \<Longrightarrow> y \<in> set (rec_from d u) \<and> rec_key y = (s, gn)"
    using r by simp
  show "\<forall>r\<in>set rows. col_a r = (if artistName s \<in> set (liked_artists d u) then Some (artistName s) else None)"
    using mem rec_from_row(1) by blast
  show "\<forall>r\<in>set rows. col_al r = (if albumTitle s \<in> set (liked_albums d u) then Some (albumTitle s) else None)"
    using mem rec_from_row(2) by blast
  show "\<forall>r\<in>set rows. col_g r = (if gn \<in> set (liked_genres d u) then Some gn else None)"
    using mem rec_from_row(3) by blast
  show "s \<in> set (Song d)"
    using x(1,3) by (rule rec_from_row(4))
  show "\<exists>c\<in>set (Classification d). classified s c \<and> c_genreName c = gn"
    using x(1,3) by (rule rec_from_row(5))
  show "like_rows d u (songTitle s) (artistName s) (albumTitle s) = []"
    using x(1,3,2) by (rule rec_from_row(6))
qed

lemma rec_groups_score:
  assumes "((s, gn), rows) \<in> set (rec_groups d u)"
  shows "count_distinct col_a rows = of_bool (artistName s \<in> set (liked_artists d u))"
    and "count_distinct col_al rows = of_bool (albumTitle s \<in> set (liked_albums d u))"
    and "count_distinct col_g rows = of_bool (gn \<in> set (liked_genres d u))"
proof -
  note r = rec_groups_rows[OF assms]
  show "count_distinct col_a rows = of_bool (artistName s \<in> set (liked_artists d u))"
    by (simp add: count_distinct_const[OF r(1) r(2)])
  show "count_distinct col_al rows = of_bool (albumTitle s \<in> set (liked_albums d u))"
    by (simp add: count_distinct_const[OF r(1) r(3)])
  show "count_distinct col_g rows = of_bool (gn \<in> set (liked_genres d u))"
    by (simp add: count_distinct_const[OF r(1) r(4)])
qed


lemma set_get_recommendations:
  "set (get_recommendations d u) =
     rec_select ` {g \<in> set (rec_groups d u). rec_score (snd g) > 0}"
  by (auto simp: get_recommendations_def order_by_desc_def)

lemma rec_member:
  assumes "r \<in> set (get_recommendations d u)"
  obtains s gn rows where "((s, gn), rows) \<in> set (rec_groups d u)" and "0 < rec_score rows"
    and "r = rec_select ((s, gn), rows)"
  using assms unfolding set_get_recommendations by auto

lemma rec_db_ann:
  "get_recommendations rec_db ''ann'' =
     [mk_rec ''Five'' ''X'' ''A1'' 10 ''Rock'' 6, mk_rec ''Four'' ''X'' ''A1'' 20 ''Jazz'' 5,
      mk_rec ''Three'' ''X'' ''A3'' 30 ''Pop'' 3, mk_rec ''Six'' ''W'' ''B1'' 99 ''Rock'' 1]"
  by code_simp


text \<open>
  C10. In every group of the query each of the three \<^verbatim>\<open>COUNT(DISTINCT ...)\<close> is 0 or 1,
  so every score returned lies between 1 and 6.
\<close>

theorem recommendation_score_bounds:
  "(\<forall>g\<in>set (rec_groups d u).
       count_distinct col_a (snd g) \<in> {0, 1} \<and> count_distinct col_al (snd g) \<in> {0, 1}
       \<and> count_distinct col_g (snd g) \<in> {0, 1})
   \<and> (\<forall>r\<in>set (get_recommendations d u). 1 \<le> r_score r \<and> r_score r \<le> 6)"
proof (intro conjI ballI)
  fix g assume "g \<in> set (rec_groups d u)"
  then obtain s gn rows where g: "g = ((s, gn), rows)" and m: "((s, gn), rows) \<in> set (rec_groups d u)"
    by (metis surj_pair)
  note sc = rec_groups_score[OF m]
  show "count_distinct col_a (snd g) \<in> {0, 1}" by (simp add: g sc)
  show "count_distinct col_al (snd g) \<in> {0, 1}" by (simp add: g sc)
  show "count_distinct col_g (snd g) \<in> {0, 1}" by (simp add: g sc)
next
  fix r assume "r \<in> set (get_recommendations d u)"
  then obtain s gn rows where g: "((s, gn), rows) \<in> set (rec_groups d u)"
    and pos: "0 < rec_score rows" and r: "r = rec_select ((s, gn), rows)"
    by (rule rec_member)
  note sc = rec_groups_score[OF g]
  have e: "r_score r = rec_score rows" by (simp add: r rec_select_def)
  show "1 \<le> r_score r" using pos e by simp
  show "r_score r \<le> 6" unfolding e rec_score_def sc by simp
qed

theorem recommendation_score_bounds_witness:
  "map r_score (get_recommendations rec_db ''ann'') = [6, 5, 3, 1]
   \<and> 1 \<le> r_score (last (get_recommendations rec_db ''ann''))
   \<and> r_score (hd (get_recommendations rec_db ''ann'')) \<le> 6"
proof -
  have h: "hd (get_recommendations rec_db ''ann'') \<in> set (get_recommendations rec_db ''ann'')"
    and l: "last (get_recommendations rec_db ''ann'') \<in> set (get_recommendations rec_db ''ann'')"
    by (simp_all add: rec_db_ann)
  from recommendation_score_bounds[of rec_db "''ann''"] h l
  have "1 \<le> r_score (last (get_recommendations rec_db ''ann''))
      \<and> r_score (hd (get_recommendations rec_db ''ann'')) \<le> 6"
    by blast
  moreover have "map r_score (get_recommendations rec_db ''ann'') = [6, 5, 3, 1]"
    by (simp add: rec_db_ann mk_rec_def)
  ultimately show ?thesis by simp
qed











section \<open>Top charts: proofs\<close>

lemma set_chart_songs:
  "s \<in> set [s. e \<leftarrow> ChartEntry d, s \<leftarrow> Song d,
              ce_songTitle e = songTitle s \<and> ce_artistName e = artistName s
              \<and> ce_albumTitle e = albumTitle s
              \<and> ce_chartName e = n \<and> ce_chartDate e = dt] \<longleftrightarrow>
     s \<in> set (Song d)
     \<and> (\<exists>e\<in>set (ChartEntry d). ce_chartName e = n \<and> ce_chartDate e = dt
           \<and> ce_songTitle e = songTitle s \<and> ce_artistName e = artistName s
           \<and> ce_albumTitle e = albumTitle s)"
  by auto

text \<open>
  C6. The chart-names step always answers 200 with the distinct chart names (the empty list
  when TopChart is empty). The dates step answers 404 exactly when TopChart has no row of
  the chosen name and otherwise the dates of that name, newest first. The songs step
  answers 404 exactly when TopChart has no row of the chosen name and date and otherwise
  the songs of the chart's entries, by play count descending.
\<close>

theorem top_charts_drill_down:
  "(\<exists>names. get_top_charts d = Inr names \<and> distinct names
        \<and> set names = tc_chartName ` set (TopChart d)
        \<and> (TopChart d = [] \<longrightarrow> names = []))
   \<and> (filter (\<lambda>t. tc_chartName t = n) (TopChart d) = [] \<longrightarrow>
        get_top_chart_dates d n =
          Inl \<lparr>status = 404, message = ''Top chart not found or no dates available.''\<rparr>)
   \<and> (filter (\<lambda>t. tc_chartName t = n) (TopChart d) \<noteq> [] \<longrightarrow>
        (\<exists>dates. get_top_chart_dates d n = Inr dates
           \<and> sorted_wrt (\<lambda>x y. y \<le> x) dates
           \<and> mset dates = mset (map tc_chartDate (filter (\<lambda>t. tc_chartName t = n) (TopChart d)))))
   \<and> (filter (\<lambda>t. tc_chartName t = n \<and> tc_chartDate t = dt) (TopChart d) = [] \<longrightarrow>
        get_top_chart_songs d n dt =
          Inl \<lparr>status = 404, message = ''Top chart not found for the specified name and date.''\<rparr>)
   \<and> (filter (\<lambda>t. tc_chartName t = n \<and> tc_chartDate t = dt) (TopChart d) \<noteq> [] \<longrightarrow>
        (\<exists>songs. get_top_chart_songs d n dt = Inr songs
           \<and> sorted_wrt (\<lambda>x y. plays y \<le> plays x) songs
           \<and> (\<forall>s. s \<in> set songs \<longleftrightarrow>
                 s \<in> set (Song d)
                 \<and> (\<exists>e\<in>set (ChartEntry d). ce_chartName e = n \<and> ce_chartDate e = dt
                       \<and> ce_songTitle e = songTitle s \<and> ce_artistName e = artistName s
                       \<and> ce_albumTitle e = albumTitle s))))"
proof (intro conjI impI)
  show "\<exists>names. get_top_charts d = Inr names \<and> distinct names
        \<and> set names = tc_chartName ` set (TopChart d)
        \<and> (TopChart d = [] \<longrightarrow> names = [])"
    by (simp add: get_top_charts_def)
  show "get_top_chart_dates d n =
          Inl \<lparr>status = 404, message = ''Top chart not found or no dates available.''\<rparr>"
    if "filter (\<lambda>t. tc_chartName t = n) (TopChart d) = []"
    using that by (simp add: get_top_chart_dates_def order_by_desc_Nil)
  show "\<exists>dates. get_top_chart_dates d n = Inr dates
           \<and> sorted_wrt (\<lambda>x y. y \<le> x) dates
           \<and> mset dates = mset (map tc_chartDate (filter (\<lambda>t. tc_chartName t = n) (TopChart d)))"
    if "filter (\<lambda>t. tc_chartName t = n) (TopChart d) \<noteq> []"
    using that order_by_desc_sorted[of "\<lambda>x. x"]
    by (simp add: get_top_chart_dates_def order_by_desc_Nil Let_def mset_order_by_desc)
  show "get_top_chart_songs d n dt =
          Inl \<lparr>status = 404, message = ''Top chart not found for the specified name and date.''\<rparr>"
    if "filter (\<lambda>t. tc_chartName t = n \<and> tc_chartDate t = dt) (TopChart d) = []"
    using that by (simp add: get_top_chart_songs_def)
  show "\<exists>songs. get_top_chart_songs d n dt = Inr songs
           \<and> sorted_wrt (\<lambda>x y. plays y \<le> plays x) songs
           \<and> (\<forall>s. s \<in> set songs \<longleftrightarrow>
                 s \<in> set (Song d)
                 \<and> (\<exists>e\<in>set (ChartEntry d). ce_chartName e = n \<and> ce_chartDate e = dt
                       \<and> ce_songTitle e = songTitle s \<and> ce_artistName e = artistName s
                       \<and> ce_albumTitle e = albumTitle s))"
    if "filter (\<lambda>t. tc_chartName t = n \<and> tc_chartDate t = dt) (TopChart d) \<noteq> []"
  proof -
    let ?rows = "[s. e \<leftarrow> ChartEntry d, s \<leftarrow> Song d,
                  ce_songTitle e = songTitle s \<and> ce_artistName e = artistName s
                  \<and> ce_albumTitle e = albumTitle s
                  \<and> ce_chartName e = n \<and> ce_chartDate e = dt]"
    have e: "get_top_chart_songs d n dt = Inr (order_by_desc plays ?rows)"
      using that by (simp add: get_top_chart_songs_def)
    have "sorted_wrt (\<lambda>x y. plays y \<le> plays x) (order_by_desc plays ?rows)"
      by (rule order_by_desc_sorted)
    moreover have "\<forall>s. s \<in> set (order_by_desc plays ?rows) \<longleftrightarrow>
                 s \<in> set (Song d)
                 \<and> (\<exists>e\<in>set (ChartEntry d). ce_chartName e = n \<and> ce_chartDate e = dt
                       \<and> ce_songTitle e = songTitle s \<and> ce_artistName e = artistName s
                       \<and> ce_albumTitle e = albumTitle s)"
      unfolding set_order_by_desc set_chart_songs by simp
    ultimately show ?thesis
      using e by blast
  qed
qed

theorem top_charts_drill_down_witness:
  "get_top_charts empty_db = Inr []
   \<and> get_top_charts charts_db = Inr [''Indie'', ''Hot'']
   \<and> get_top_chart_dates charts_db ''Nope'' =
       Inl \<lparr>status = 404, message = ''Top chart not found or no dates available.''\<rparr>
   \<and> get_top_chart_dates charts_db ''Hot'' = Inr [30, 20, 10]
   \<and> get_top_chart_songs charts_db ''Hot'' 11 =
       Inl \<lparr>status = 404, message = ''Top chart not found for the specified name and date.''\<rparr>
   \<and> get_top_chart_songs charts_db ''Hot'' 10 =
       Inr [mk_song ''One'' ''X'' ''A1'' 50, mk_song ''Three'' ''X'' ''A3'' 30]
   \<and> get_top_chart_songs charts_db ''Hot'' 20 = Inr []"
proof -
  note none = top_charts_drill_down[of empty_db "''Nope''" 11]
  note nope = top_charts_drill_down[of charts_db "''Nope''" 11]
  note hot = top_charts_drill_down[of charts_db "''Hot''" 11]
  have "TopChart empty_db = []"
    by (simp add: empty_db_def)
  with none have c0: "get_top_charts empty_db = Inr []"
    by auto
  have c1: "get_top_charts charts_db = Inr [''Indie'', ''Hot'']"
    by (simp add: get_top_charts_def charts_db_def empty_db_def)
  have "filter (\<lambda>t. tc_chartName t = ''Nope'') (TopChart charts_db) = []"
    by (simp add: charts_db_def empty_db_def)
  with nope have c2: "get_top_chart_dates charts_db ''Nope'' =
       Inl \<lparr>status = 404, message = ''Top chart not found or no dates available.''\<rparr>"
    by blast
  have c3: "get_top_chart_dates charts_db ''Hot'' = Inr [30, 20, 10]"
    by (simp add: get_top_chart_dates_def charts_db_def empty_db_def order_by_desc_def)
  have "filter (\<lambda>t. tc_chartName t = ''Hot'' \<and> tc_chartDate t = 11) (TopChart charts_db) = []"
    by (simp add: charts_db_def empty_db_def)
  with hot have c4: "get_top_chart_songs charts_db ''Hot'' 11 =
       Inl \<lparr>status = 404, message = ''Top chart not found for the specified name and date.''\<rparr>"
    by blast
  have c5: "get_top_chart_songs charts_db ''Hot'' 10 =
       Inr [mk_song ''One'' ''X'' ''A1'' 50, mk_song ''Three'' ''X'' ''A3'' 30]"
    by (simp add: get_top_chart_songs_def charts_db_def empty_db_def order_by_desc_def
          mk_song_def)
  have c6: "get_top_chart_songs charts_db ''Hot'' 20 = Inr []"
    by (simp add: get_top_chart_songs_def charts_db_def empty_db_def order_by_desc_def
          mk_song_def)
  from c0 c1 c2 c3 c4 c5 c6 show ?thesis by blast
qed

section \<open>Search and the optional-auth middleware: proofs\<close>

lemma search_handler_rows:
  assumes "search_handler upper like d req = Inr rows"
  shows "rows = (if sort_ascending upper (q_sortOrder (req_query req))
                 then order_by_asc sr_plays
                 else order_by_desc sr_plays)
                  (search_rows like d (req_query req)
                    (if q_liked (req_query req) = Some ''true''
                     then Some (user_id (req_user req)) else None))"
  using assms by (auto simp: search_handler_def Let_def split: if_splits)

lemma in_set_if: "r \<in> set (if P then xs else []) \<longleftrightarrow> P \<and> r \<in> set xs"
  by simp

lemma search_rows_nf:
  "r \<in> set (search_rows like d q lb) \<longleftrightarrow>
     (\<exists>s. s \<in> set (Song d) \<and>
       (\<exists>a. a \<in> set (Artist d) \<and> artistName s = a \<and>
         (\<exists>al. al \<in> set (Album d) \<and> albumTitle s = fst al \<and> artistName s = snd al \<and>
           (\<exists>c. c \<in> set (Classification d) \<and> songTitle s = c_songTitle c \<and>
                 artistName s = c_artistName c \<and> albumTitle s = c_albumTitle c \<and>
             (\<exists>g. g \<in> set (Genre d) \<and> c_genreName c = g \<and>
                 like_filter like (q_songTitle q) (songTitle s) \<and>
                 like_filter like (q_artistName q) a \<and>
                 like_filter like (q_albumTitle q) (fst al) \<and>
                 like_filter like (q_genreName q) g \<and>
                 liked_filter d lb (songTitle s) \<and>
                 r = \<lparr>sr_songTitle = songTitle s, sr_artistName = a, sr_albumTitle = fst al,
                       sr_genreName = g, sr_plays = plays s, sr_duration = duration s\<rparr>)))))"
  unfolding search_rows_def
  apply (simp only: set_concat set_map UN_iff image_iff bex_simps in_set_if Bex_def[symmetric]
      set_simps insert_iff empty_iff simp_thms)
  apply (simp only: Bex_def ex_simps conj_assoc)
  done

lemma set_search_rows:
  "r \<in> set (search_rows like d q lb) \<longleftrightarrow>
     (\<exists>s\<in>set (Song d). \<exists>c\<in>set (Classification d).
        classified s c \<and> artistName s \<in> set (Artist d)
        \<and> (albumTitle s, artistName s) \<in> set (Album d)
        \<and> c_genreName c \<in> set (Genre d)
        \<and> like_filter like (q_songTitle q) (songTitle s)
        \<and> like_filter like (q_artistName q) (artistName s)
        \<and> like_filter like (q_albumTitle q) (albumTitle s)
        \<and> like_filter like (q_genreName q) (c_genreName c)
        \<and> liked_filter d lb (songTitle s)
        \<and> r = \<lparr>sr_songTitle = songTitle s, sr_artistName = artistName s,
                 sr_albumTitle = albumTitle s, sr_genreName = c_genreName c,
                 sr_plays = plays s, sr_duration = duration s\<rparr>)"
  (is "?L \<longleftrightarrow> ?R")
proof
  assume ?L
  then obtain s a al c g where m: "s \<in> set (Song d)" "a \<in> set (Artist d)" "artistName s = a"
    "al \<in> set (Album d)" "albumTitle s = fst al" "artistName s = snd al"
    "c \<in> set (Classification d)" "songTitle s = c_songTitle c" "artistName s = c_artistName c"
    "albumTitle s = c_albumTitle c" "g \<in> set (Genre d)" "c_genreName c = g"
    "like_filter like (q_songTitle q) (songTitle s)" "like_filter like (q_artistName q) a"
    "like_filter like (q_albumTitle q) (fst al)" "like_filter like (q_genreName q) g"
    "liked_filter d lb (songTitle s)"
    "r = \<lparr>sr_songTitle = songTitle s, sr_artistName = a, sr_albumTitle = fst al,
          sr_genreName = g, sr_plays = plays s, sr_duration = duration s\<rparr>"
    unfolding search_rows_nf by (elim exE conjE)
  have al: "al = (albumTitle s, artistName s)"
    using m(5,6) by (simp add: prod_eq_iff)
  have "classified s c"
    using m(8-10) by (simp add: classified_def)
  moreover have "artistName s \<in> set (Artist d)" using m(2,3) by simp
  moreover have "(albumTitle s, artistName s) \<in> set (Album d)" using m(4) al by simp
  moreover have "c_genreName c \<in> set (Genre d)" using m(11,12) by simp
  moreover have "like_filter like (q_artistName q) (artistName s)" using m(14,3) by simp
  moreover have "like_filter like (q_albumTitle q) (albumTitle s)" using m(15,5) by simp
  moreover have "like_filter like (q_genreName q) (c_genreName c)" using m(16,12) by simp
  moreover have "r = \<lparr>sr_songTitle = songTitle s, sr_artistName = artistName s,
                 sr_albumTitle = albumTitle s, sr_genreName = c_genreName c,
                 sr_plays = plays s, sr_duration = duration s\<rparr>"
    using m(18,3,5,12) by simp
  ultimately show ?R
    using m(1,7,13,17) by blast
next
  assume ?R
  then obtain s c where m: "s \<in> set (Song d)" "c \<in> set (Classification d)" "classified s c"
    "artistName s \<in> set (Artist d)" "(albumTitle s, artistName s) \<in> set (Album d)"
    "c_genreName c \<in> set (Genre d)"
    "like_filter like (q_songTitle q) (songTitle s)"
    "like_filter like (q_artistName q) (artistName s)"
    "like_filter like (q_albumTitle q) (albumTitle s)"
    "like_filter like (q_genreName q) (c_genreName c)"
    "liked_filter d lb (songTitle s)"
    "r = \<lparr>sr_songTitle = songTitle s, sr_artistName = artistName s,
          sr_albumTitle = albumTitle s, sr_genreName = c_genreName c,
          sr_plays = plays s, sr_duration = duration s\<rparr>"
    by blast
  show ?L
    unfolding search_rows_nf
    apply (rule exI[of _ s], rule conjI[OF m(1)])
    apply (rule exI[of _ "artistName s"], rule conjI[OF m(4)], rule conjI[OF refl])
    apply (rule exI[of _ "(albumTitle s, artistName s)"], rule conjI[OF m(5)])
    apply (simp only: fst_conv snd_conv simp_thms)
    apply (rule exI[of _ c], rule conjI[OF m(2)])
    using m(3,6-12) apply (simp add: classified_def)
    done
qed

lemma search_rows_no_filter:
  assumes "\<not> truthy (q_songTitle q)" and "\<not> truthy (q_artistName q)"
    and "\<not> truthy (q_albumTitle q)" and "\<not> truthy (q_genreName q)"
  shows "r \<in> set (search_rows like d q None) \<longleftrightarrow>
     (\<exists>s\<in>set (Song d). \<exists>c\<in>set (Classification d).
        classified s c \<and> artistName s \<in> set (Artist d)
        \<and> (albumTitle s, artistName s) \<in> set (Album d)
        \<and> c_genreName c \<in> set (Genre d)
        \<and> r = \<lparr>sr_songTitle = songTitle s, sr_artistName = artistName s,
                 sr_albumTitle = albumTitle s, sr_genreName = c_genreName c,
                 sr_plays = plays s, sr_duration = duration s\<rparr>)"
  unfolding set_search_rows using assms
  by (simp add: like_filter_def liked_filter_def)

lemma search_returned_rows:
  assumes "search_handler upper like d req = Inr rows"
  shows "(truthy (q_sortOrder (req_query req))
            \<and> upper (str (q_sortOrder (req_query req))) = ''ASC'' \<longrightarrow>
            sorted_wrt (\<lambda>x y. sr_plays x \<le> sr_plays y) rows)
       \<and> (upper ''ASC'' = ''ASC'' \<and> q_sortOrder (req_query req) = Some ''ASC'' \<longrightarrow>
            sorted_wrt (\<lambda>x y. sr_plays x \<le> sr_plays y) rows)
       \<and> (upper ''DESC'' = ''DESC'' \<and> q_sortOrder (req_query req) = Some ''DESC'' \<longrightarrow>
            sorted_wrt (\<lambda>x y. sr_plays y \<le> sr_plays x) rows)
       \<and> (\<not> truthy (q_sortOrder (req_query req)) \<longrightarrow>
            sorted_wrt (\<lambda>x y. sr_plays y \<le> sr_plays x) rows)
       \<and> (upper (str (q_sortOrder (req_query req))) \<noteq> ''ASC'' \<longrightarrow>
            sorted_wrt (\<lambda>x y. sr_plays y \<le> sr_plays x) rows)
       \<and> (\<not> truthy (q_songTitle (req_query req)) \<and> \<not> truthy (q_artistName (req_query req))
          \<and> \<not> truthy (q_albumTitle (req_query req)) \<and> \<not> truthy (q_genreName (req_query req))
          \<and> q_liked (req_query req) \<noteq> Some ''true'' \<longrightarrow>
            (\<forall>r. r \<in> set rows \<longleftrightarrow>
               (\<exists>s\<in>set (Song d). \<exists>c\<in>set (Classification d).
                  classified s c \<and> artistName s \<in> set (Artist d)
                  \<and> (albumTitle s, artistName s) \<in> set (Album d)
                  \<and> c_genreName c \<in> set (Genre d)
                  \<and> r = \<lparr>sr_songTitle = songTitle s, sr_artistName = artistName s,
                           sr_albumTitle = albumTitle s, sr_genreName = c_genreName c,
                           sr_plays = plays s, sr_duration = duration s\<rparr>)))"
proof -
  let ?q = "req_query req"
  let ?base = "search_rows like d ?q
                 (if q_liked ?q = Some ''true'' then Some (user_id (req_user req)) else None)"
  note rows = search_handler_rows[OF assms]
  have asc: "sorted_wrt (\<lambda>x y. sr_plays x \<le> sr_plays y) rows"
    if "sort_ascending upper (q_sortOrder ?q)"
    using that rows order_by_asc_sorted[of sr_plays ?base] by simp
  have desc: "sorted_wrt (\<lambda>x y. sr_plays y \<le> sr_plays x) rows"
    if "\<not> sort_ascending upper (q_sortOrder ?q)"
    using that rows order_by_desc_sorted[of sr_plays ?base] by simp
  have all: "set rows = set ?base"
    using rows by (simp add: set_order_by_asc set_order_by_desc)
  show ?thesis
  proof (intro conjI impI)
    show "sorted_wrt (\<lambda>x y. sr_plays x \<le> sr_plays y) rows"
      if "truthy (q_sortOrder ?q) \<and> upper (str (q_sortOrder ?q)) = ''ASC''"
      using that by (intro asc) (simp add: sort_ascending_def)
    show "sorted_wrt (\<lambda>x y. sr_plays x \<le> sr_plays y) rows"
      if "upper ''ASC'' = ''ASC'' \<and> q_sortOrder ?q = Some ''ASC''"
      using that by (intro asc) (simp add: sort_ascending_def)
    show "sorted_wrt (\<lambda>x y. sr_plays y \<le> sr_plays x) rows"
      if "upper ''DESC'' = ''DESC'' \<and> q_sortOrder ?q = Some ''DESC''"
      using that by (intro desc) (simp add: sort_ascending_def)
    show "sorted_wrt (\<lambda>x y. sr_plays y \<le> sr_plays x) rows"
      if "\<not> truthy (q_sortOrder ?q)"
      using that by (intro desc) (simp add: sort_ascending_def)
    show "sorted_wrt (\<lambda>x y. sr_plays y \<le> sr_plays x) rows"
      if "upper (str (q_sortOrder ?q)) \<noteq> ''ASC''"
      using that by (intro desc) (simp add: sort_ascending_def)
    show "\<forall>r. r \<in> set rows \<longleftrightarrow>
               (\<exists>s\<in>set (Song d). \<exists>c\<in>set (Classification d).
                  classified s c \<and> artistName s \<in> set (Artist d)
                  \<and> (albumTitle s, artistName s) \<in> set (Album d)
                  \<and> c_genreName c \<in> set (Genre d)
                  \<and> r = \<lparr>sr_songTitle = songTitle s, sr_artistName = artistName s,
                           sr_albumTitle = albumTitle s, sr_genreName = c_genreName c,
                           sr_plays = plays s, sr_duration = duration s\<rparr>)"
      if "\<not> truthy (q_songTitle ?q) \<and> \<not> truthy (q_artistName ?q)
          \<and> \<not> truthy (q_albumTitle ?q) \<and> \<not> truthy (q_genreName ?q)
          \<and> q_liked ?q \<noteq> Some ''true''"
      using that all search_rows_no_filter[of ?q _ like d] by simp
  qed
qed

lemma search_handler_refused:
  "q_liked (req_query req) = Some ''true'' \<and> no_identity (req_user req) \<Longrightarrow>
     search_handler upper like d req =
       Inl \<lparr>status = 401, message = ''Authentication required to filter liked songs.''\<rparr>"
  by (simp add: search_handler_def Let_def)

lemma search_handler_answers:
  "\<not> (q_liked (req_query req) = Some ''true'' \<and> no_identity (req_user req)) \<Longrightarrow>
     \<exists>rows. search_handler upper like d req = Inr rows"
  by (auto simp: search_handler_def Let_def)

text \<open>
  C7, amended. A search request, its query parameters absent or strings, is refused with
  401 exactly when it asks for \<open>liked=true\<close> with no identity attached. Every other request
  returns rows, ordered by play count: ascending when \<open>sortOrder\<close> is present, not empty and
  upper-cases to \<open>ASC\<close> (so for \<open>ASC\<close>, and for \<open>asc\<close> or \<open>Asc\<close> as well), descending in
  every other case: \<open>DESC\<close>, an absent or empty \<open>sortOrder\<close>, any value that does not
  upper-case to \<open>ASC\<close>. With no filter at all the rows are those of every song joined with
  its Artist, Album, Classification and Genre rows, by plays descending when no \<open>sortOrder\<close>
  is given.
\<close>

theorem search_sort_order:
  "(q_liked (req_query req) = Some ''true'' \<and> no_identity (req_user req) \<longrightarrow>
      search_handler upper like d req =
        Inl \<lparr>status = 401, message = ''Authentication required to filter liked songs.''\<rparr>)
   \<and> (\<not> (q_liked (req_query req) = Some ''true'' \<and> no_identity (req_user req)) \<longrightarrow>
      (\<exists>rows. search_handler upper like d req = Inr rows
       \<and> (truthy (q_sortOrder (req_query req))
            \<and> upper (str (q_sortOrder (req_query req))) = ''ASC'' \<longrightarrow>
            sorted_wrt (\<lambda>x y. sr_plays x \<le> sr_plays y) rows)
       \<and> (upper ''ASC'' = ''ASC'' \<and> q_sortOrder (req_query req) = Some ''ASC'' \<longrightarrow>
            sorted_wrt (\<lambda>x y. sr_plays x \<le> sr_plays y) rows)
       \<and> (upper ''DESC'' = ''DESC'' \<and> q_sortOrder (req_query req) = Some ''DESC'' \<longrightarrow>
            sorted_wrt (\<lambda>x y. sr_plays y \<le> sr_plays x) rows)
       \<and> (\<not> truthy (q_sortOrder (req_query req)) \<longrightarrow>
            sorted_wrt (\<lambda>x y. sr_plays y \<le> sr_plays x) rows)
       \<and> (upper (str (q_sortOrder (req_query req))) \<noteq> ''ASC'' \<longrightarrow>
            sorted_wrt (\<lambda>x y. sr_plays y \<le> sr_plays x) rows)
       \<and> (\<not> truthy (q_songTitle (req_query req)) \<and> \<not> truthy (q_artistName (req_query req))
          \<and> \<not> truthy (q_albumTitle (req_query req)) \<and> \<not> truthy (q_genreName (req_query req))
          \<and> q_liked (req_query req) \<noteq> Some ''true'' \<longrightarrow>
            (\<forall>r. r \<in> set rows \<longleftrightarrow>
               (\<exists>s\<in>set (Song d). \<exists>c\<in>set (Classification d).
                  classified s c \<and> artistName s \<in> set (Artist d)
                  \<and> (albumTitle s, artistName s) \<in> set (Album d)
                  \<and> c_genreName c \<in> set (Genre d)
                  \<and> r = \<lparr>sr_songTitle = songTitle s, sr_artistName = artistName s,
                           sr_albumTitle = albumTitle s, sr_genreName = c_genreName c,
                           sr_plays = plays s, sr_duration = duration s\<rparr>)))))"
proof (intro conjI impI)
  assume "q_liked (req_query req) = Some ''true'' \<and> no_identity (req_user req)"
  then show "search_handler upper like d req =
        Inl \<lparr>status = 401, message = ''Authentication required to filter liked songs.''\<rparr>"
    by (rule search_handler_refused)
next
  assume "\<not> (q_liked (req_query req) = Some ''true'' \<and> no_identity (req_user req))"
  then obtain rows where rows: "search_handler upper like d req = Inr rows"
    using search_handler_answers by blast
  note props = search_returned_rows[OF rows]
  show "\<exists>rows. search_handler upper like d req = Inr rows
       \<and> (truthy (q_sortOrder (req_query req))
            \<and> upper (str (q_sortOrder (req_query req))) = ''ASC'' \<longrightarrow>
            sorted_wrt (\<lambda>x y. sr_plays x \<le> sr_plays y) rows)
       \<and> (upper ''ASC'' = ''ASC'' \<and> q_sortOrder (req_query req) = Some ''ASC'' \<longrightarrow>
            sorted_wrt (\<lambda>x y. sr_plays x \<le> sr_plays y) rows)
       \<and> (upper ''DESC'' = ''DESC'' \<and> q_sortOrder (req_query req) = Some ''DESC'' \<longrightarrow>
            sorted_wrt (\<lambda>x y. sr_plays y \<le> sr_plays x) rows)
       \<and> (\<not> truthy (q_sortOrder (req_query req)) \<longrightarrow>
            sorted_wrt (\<lambda>x y. sr_plays y \<le> sr_plays x) rows)
       \<and> (upper (str (q_sortOrder (req_query req))) \<noteq> ''ASC'' \<longrightarrow>
            sorted_wrt (\<lambda>x y. sr_plays y \<le> sr_plays x) rows)
       \<and> (\<not> truthy (q_songTitle (req_query req)) \<and> \<not> truthy (q_artistName (req_query req))
          \<and> \<not> truthy (q_albumTitle (req_query req)) \<and> \<not> truthy (q_genreName (req_query req))
          \<and> q_liked (req_query req) \<noteq> Some ''true'' \<longrightarrow>
            (\<forall>r. r \<in> set rows \<longleftrightarrow>
               (\<exists>s\<in>set (Song d). \<exists>c\<in>set (Classification d).
                  classified s c \<and> artistName s \<in> set (Artist d)
                  \<and> (albumTitle s, artistName s) \<in> set (Album d)
                  \<and> c_genreName c \<in> set (Genre d)
                  \<and> r = \<lparr>sr_songTitle = songTitle s, sr_artistName = artistName s,
                           sr_albumTitle = albumTitle s, sr_genreName = c_genreName c,
                           sr_plays = plays s, sr_duration = duration s\<rparr>)))"
    by (rule exI[of _ rows], rule conjI[OF rows props])
qed

lemma search_db_eval:
  "search_handler ascii_upper no_like search_db (mk_request None (mk_query None None)) =
     Inr [mk_row ''Hello'' ''Adele'' ''25'' ''Pop'' 900,
          mk_row ''Yellow'' ''Coldplay'' ''Parachutes'' ''Rock'' 800,
          mk_row ''Hello'' ''Lionel Richie'' ''Cant Slow Down'' ''Soul'' 700]"
  "search_handler ascii_upper no_like search_db (mk_request None (mk_query (Some ''ASC'') None)) =
     Inr [mk_row ''Hello'' ''Lionel Richie'' ''Cant Slow Down'' ''Soul'' 700,
          mk_row ''Yellow'' ''Coldplay'' ''Parachutes'' ''Rock'' 800,
          mk_row ''Hello'' ''Adele'' ''25'' ''Pop'' 900]"
  "search_handler ascii_upper no_like search_db (mk_request None (mk_query (Some ''asc'') None)) =
     Inr [mk_row ''Hello'' ''Lionel Richie'' ''Cant Slow Down'' ''Soul'' 700,
          mk_row ''Yellow'' ''Coldplay'' ''Parachutes'' ''Rock'' 800,
          mk_row ''Hello'' ''Adele'' ''25'' ''Pop'' 900]"
  "search_handler ascii_upper no_like search_db (mk_request None (mk_query (Some ''up'') None)) =
     Inr [mk_row ''Hello'' ''Adele'' ''25'' ''Pop'' 900,
          mk_row ''Yellow'' ''Coldplay'' ''Parachutes'' ''Rock'' 800,
          mk_row ''Hello'' ''Lionel Richie'' ''Cant Slow Down'' ''Soul'' 700]"
  by code_simp+

lemma ascii_upper_eval:
  "ascii_upper ''ASC'' = ''ASC''" "ascii_upper ''DESC'' = ''DESC''"
  "ascii_upper ''asc'' = ''ASC''" "ascii_upper ''up'' = ''UP''"
  by code_simp+

theorem search_sort_order_witness:
  "sorted_wrt (\<lambda>x y. sr_plays x \<le> sr_plays y)
     [mk_row ''Hello'' ''Lionel Richie'' ''Cant Slow Down'' ''Soul'' 700,
      mk_row ''Yellow'' ''Coldplay'' ''Parachutes'' ''Rock'' 800,
      mk_row ''Hello'' ''Adele'' ''25'' ''Pop'' 900]
   \<and> sorted_wrt (\<lambda>x y. sr_plays y \<le> sr_plays x)
     [mk_row ''Hello'' ''Adele'' ''25'' ''Pop'' 900,
      mk_row ''Yellow'' ''Coldplay'' ''Parachutes'' ''Rock'' 800,
      mk_row ''Hello'' ''Lionel Richie'' ''Cant Slow Down'' ''Soul'' 700]
   \<and> mk_row ''Yellow'' ''Coldplay'' ''Parachutes'' ''Rock'' 800
       \<in> set [mk_row ''Hello'' ''Adele'' ''25'' ''Pop'' 900,
               mk_row ''Yellow'' ''Coldplay'' ''Parachutes'' ''Rock'' 800,
               mk_row ''Hello'' ''Lionel Richie'' ''Cant Slow Down'' ''Soul'' 700]
   \<and> search_handler ascii_upper no_like search_db (mk_request None (mk_query (Some ''ASC'') None)) =
       Inr [mk_row ''Hello'' ''Lionel Richie'' ''Cant Slow Down'' ''Soul'' 700,
            mk_row ''Yellow'' ''Coldplay'' ''Parachutes'' ''Rock'' 800,
            mk_row ''Hello'' ''Adele'' ''25'' ''Pop'' 900]
   \<and> search_handler ascii_upper no_like search_db (mk_request None (mk_query None None)) =
       Inr [mk_row ''Hello'' ''Adele'' ''25'' ''Pop'' 900,
            mk_row ''Yellow'' ''Coldplay'' ''Parachutes'' ''Rock'' 800,
            mk_row ''Hello'' ''Lionel Richie'' ''Cant Slow Down'' ''Soul'' 700]
   \<and> search_handler ascii_upper no_like search_db
         (mk_request None (mk_query None (Some ''true''))) =
       Inl \<lparr>status = 401, message = ''Authentication required to filter liked songs.''\<rparr>"
proof -
  let ?asc = "[mk_row ''Hello'' ''Lionel Richie'' ''Cant Slow Down'' ''Soul'' 700,
      mk_row ''Yellow'' ''Coldplay'' ''Parachutes'' ''Rock'' 800,
      mk_row ''Hello'' ''Adele'' ''25'' ''Pop'' 900]"
  let ?desc = "[mk_row ''Hello'' ''Adele'' ''25'' ''Pop'' 900,
      mk_row ''Yellow'' ''Coldplay'' ''Parachutes'' ''Rock'' 800,
      mk_row ''Hello'' ''Lionel Richie'' ''Cant Slow Down'' ''Soul'' 700]"
  let ?up = "mk_request None (mk_query (Some ''ASC'') None)"
  let ?dflt = "mk_request None (mk_query None None)"
  let ?anon = "mk_request None (mk_query None (Some ''true''))"
  have refused: "q_liked (req_query ?anon) = Some ''true'' \<and> no_identity (req_user ?anon)"
    by (simp add: mk_request_def mk_query_def)
  have r: "search_handler ascii_upper no_like search_db ?anon =
       Inl \<lparr>status = 401, message = ''Authentication required to filter liked songs.''\<rparr>"
    using search_sort_order[of ?anon ascii_upper no_like search_db, THEN conjunct1] refused
    by (rule mp)
  have up_ok: "\<not> (q_liked (req_query ?up) = Some ''true'' \<and> no_identity (req_user ?up))"
    and dflt_ok: "\<not> (q_liked (req_query ?dflt) = Some ''true'' \<and> no_identity (req_user ?dflt))"
    by (simp_all add: mk_request_def mk_query_def)
  from search_sort_order[of ?up ascii_upper no_like search_db, THEN conjunct2, THEN mp, OF up_ok]
  obtain rows where up: "search_handler ascii_upper no_like search_db ?up = Inr rows"
    and up_asc: "ascii_upper ''ASC'' = ''ASC'' \<and> q_sortOrder (req_query ?up) = Some ''ASC'' \<longrightarrow>
            sorted_wrt (\<lambda>x y. sr_plays x \<le> sr_plays y) rows"
    by blast
  have "rows = ?asc"
    using up by (simp add: search_db_eval)
  moreover have "ascii_upper ''ASC'' = ''ASC'' \<and> q_sortOrder (req_query ?up) = Some ''ASC''"
    by (simp add: ascii_upper_eval mk_request_def mk_query_def)
  ultimately have a: "sorted_wrt (\<lambda>x y. sr_plays x \<le> sr_plays y) ?asc"
    using up_asc by blast
  from search_sort_order[of ?dflt ascii_upper no_like search_db, THEN conjunct2, THEN mp,
      OF dflt_ok]
  obtain rows' where dflt: "search_handler ascii_upper no_like search_db ?dflt = Inr rows'"
    and dflt_desc: "\<not> truthy (q_sortOrder (req_query ?dflt)) \<longrightarrow>
            sorted_wrt (\<lambda>x y. sr_plays y \<le> sr_plays x) rows'"
    and dflt_all: "\<not> truthy (q_songTitle (req_query ?dflt))
          \<and> \<not> truthy (q_artistName (req_query ?dflt))
          \<and> \<not> truthy (q_albumTitle (req_query ?dflt))
          \<and> \<not> truthy (q_genreName (req_query ?dflt))
          \<and> q_liked (req_query ?dflt) \<noteq> Some ''true'' \<longrightarrow>
            (\<forall>r. r \<in> set rows' \<longleftrightarrow>
               (\<exists>s\<in>set (Song search_db). \<exists>c\<in>set (Classification search_db).
                  classified s c \<and> artistName s \<in> set (Artist search_db)
                  \<and> (albumTitle s, artistName s) \<in> set (Album search_db)
                  \<and> c_genreName c \<in> set (Genre search_db)
                  \<and> r = \<lparr>sr_songTitle = songTitle s, sr_artistName = artistName s,
                           sr_albumTitle = albumTitle s, sr_genreName = c_genreName c,
                           sr_plays = plays s, sr_duration = duration s\<rparr>))"
    by blast
  have rows': "rows' = ?desc"
    using dflt by (simp add: search_db_eval)
  have "\<not> truthy (q_sortOrder (req_query ?dflt))"
    by (simp add: mk_request_def mk_query_def)
  with dflt_desc rows' have b: "sorted_wrt (\<lambda>x y. sr_plays y \<le> sr_plays x) ?desc"
    by blast
  let ?s = "mk_song ''Yellow'' ''Coldplay'' ''Parachutes'' 800"
  let ?c = "mk_class ''Yellow'' ''Coldplay'' ''Parachutes'' ''Rock''"
  have nf: "\<not> truthy (q_songTitle (req_query ?dflt))
          \<and> \<not> truthy (q_artistName (req_query ?dflt))
          \<and> \<not> truthy (q_albumTitle (req_query ?dflt))
          \<and> \<not> truthy (q_genreName (req_query ?dflt))
          \<and> q_liked (req_query ?dflt) \<noteq> Some ''true''"
    by (simp add: mk_request_def mk_query_def)
  have all: "\<forall>r. r \<in> set ?desc \<longleftrightarrow>
               (\<exists>s\<in>set (Song search_db). \<exists>c\<in>set (Classification search_db).
                  classified s c \<and> artistName s \<in> set (Artist search_db)
                  \<and> (albumTitle s, artistName s) \<in> set (Album search_db)
                  \<and> c_genreName c \<in> set (Genre search_db)
                  \<and> r = \<lparr>sr_songTitle = songTitle s, sr_artistName = artistName s,
                           sr_albumTitle = albumTitle s, sr_genreName = c_genreName c,
                           sr_plays = plays s, sr_duration = duration s\<rparr>)"
    using dflt_all nf rows' by blast
  have "?s \<in> set (Song search_db)" "?c \<in> set (Classification search_db)"
    "classified ?s ?c" "artistName ?s \<in> set (Artist search_db)"
    "(albumTitle ?s, artistName ?s) \<in> set (Album search_db)"
    "c_genreName ?c \<in> set (Genre search_db)"
    "mk_row ''Yellow'' ''Coldplay'' ''Parachutes'' ''Rock'' 800 =
       \<lparr>sr_songTitle = songTitle ?s, sr_artistName = artistName ?s,
        sr_albumTitle = albumTitle ?s, sr_genreName = c_genreName ?c,
        sr_plays = plays ?s, sr_duration = duration ?s\<rparr>"
    by (simp_all add: search_db_def empty_db_def mk_song_def mk_class_def classified_def
          mk_row_def)
  with all have c: "mk_row ''Yellow'' ''Coldplay'' ''Parachutes'' ''Rock'' 800 \<in> set ?desc"
    by blast
  from a b c r search_db_eval(1,2) show ?thesis by blast
qed

text \<open>
  C7 as stated fails for \<open>sortOrder=asc\<close>: a value other than \<open>ASC\<close> and \<open>DESC\<close>, for which
  the rows come back in ascending order, since \<^verbatim>\<open>'asc'.toUpperCase()\<close> is \<^verbatim>\<open>'ASC'\<close>. The
  search with no filters leaves out \<open>Demo\<close>, a song with no Classification row. And a
  request for \<open>liked=true\<close> without identity has no rows in any order: it is answered 401.
\<close>

theorem search_lowercase_asc_counterexample:
  "ascii_upper ''asc'' = ''ASC''
   \<and> map sr_plays (projr (search_handler ascii_upper no_like search_db
                      (mk_request None (mk_query (Some ''asc'') None)))) = [700, 800, 900]
   \<and> mk_song ''Demo'' ''Coldplay'' ''Parachutes'' 5 \<in> set (Song search_db)
   \<and> map sr_songTitle (projr (search_handler ascii_upper no_like search_db
                      (mk_request None (mk_query None None)))) = [''Hello'', ''Yellow'', ''Hello'']
   \<and> search_handler ascii_upper no_like search_db
        (mk_request None (mk_query (Some ''DESC'') (Some ''true''))) =
       Inl \<lparr>status = 401, message = ''Authentication required to filter liked songs.''\<rparr>"
proof -
  have "search_handler ascii_upper no_like search_db
        (mk_request None (mk_query (Some ''DESC'') (Some ''true''))) =
       Inl \<lparr>status = 401, message = ''Authentication required to filter liked songs.''\<rparr>"
    by (rule search_handler_refused) (simp add: mk_request_def mk_query_def)
  moreover have "mk_song ''Demo'' ''Coldplay'' ''Parachutes'' 5 \<in> set (Song search_db)"
    by (simp add: search_db_def empty_db_def)
  ultimately show ?thesis
    by (simp add: search_db_eval ascii_upper_eval mk_row_def)
qed

text \<open>
  C2 on \<open>search_db\<close>: \<open>bob\<close> likes Adele's \<open>Hello\<close> only, and the search with
  \<open>liked=true\<close> made with his token returns Lionel Richie's \<open>Hello\<close> as well, a song whose
  triple is not in his likes: the filter compares the title alone. Without a token the
  same search answers 401.
\<close>

theorem search_liked_compares_title_only:
  "UserLike search_db = [mk_like ''bob'' ''Hello'' ''Adele'' ''25'']
   \<and> like_rows search_db ''bob'' ''Hello'' ''Lionel Richie'' ''Cant Slow Down'' = []
   \<and> fst (get_search example_verify ascii_upper no_like search_db
            (mk_request (Some ''tok-bob'') (mk_query None (Some ''true'')))) =
       Inr [mk_row ''Hello'' ''Adele'' ''25'' ''Pop'' 900,
            mk_row ''Hello'' ''Lionel Richie'' ''Cant Slow Down'' ''Soul'' 700]
   \<and> fst (get_search example_verify ascii_upper no_like search_db
            (mk_request None (mk_query None (Some ''true'')))) =
       Inl \<lparr>status = 401, message = ''Authentication required to filter liked songs.''\<rparr>"
proof -
  have "fst (get_search example_verify ascii_upper no_like search_db
            (mk_request (Some ''tok-bob'') (mk_query None (Some ''true'')))) =
       Inr [mk_row ''Hello'' ''Adele'' ''25'' ''Pop'' 900,
            mk_row ''Hello'' ''Lionel Richie'' ''Cant Slow Down'' ''Soul'' 700]"
    by code_simp
  moreover have "fst (get_search example_verify ascii_upper no_like search_db
            (mk_request None (mk_query None (Some ''true'')))) =
       Inl \<lparr>status = 401, message = ''Authentication required to filter liked songs.''\<rparr>"
    by code_simp
  moreover have "like_rows search_db ''bob'' ''Hello'' ''Lionel Richie'' ''Cant Slow Down'' = []"
    by code_simp
  moreover have "UserLike search_db = [mk_like ''bob'' ''Hello'' ''Adele'' ''25'']"
    by (simp add: search_db_def empty_db_def)
  ultimately show ?thesis by blast
qed

text \<open>
  C9. When the token is missing or empty, or \<^verbatim>\<open>jwt.verify\<close> throws on it (bad signature,
  expired), \<^verbatim>\<open>authOptional\<close> hands the request on unchanged, so with no identity
  attached; it writes the error to the log in the second case and nothing in the first.
  The reply of the search is then the reply to the same request sent without a token: rows
  with status 200, unless it asks for \<open>liked=true\<close>, which an anonymous request may not.
\<close>

theorem authOptional_bad_token_is_anonymous:
  assumes "req_user req = None"
    and "\<not> truthy (req_token req) \<or> isl (verify (str (req_token req)))"
  shows "fst (authOptional verify req) = req
       \<and> req_user (fst (authOptional verify req)) = None
       \<and> snd (authOptional verify req) =
           (if truthy (req_token req)
            then [''Invalid token: '' @ projl (verify (str (req_token req)))] else [])
       \<and> fst (get_search verify upper like d req) =
           fst (get_search verify upper like d (req\<lparr>req_token := None\<rparr>))
       \<and> (q_liked (req_query req) \<noteq> Some ''true'' \<longrightarrow>
            (\<exists>rows. fst (get_search verify upper like d req) = Inr rows))
       \<and> (q_liked (req_query req) = Some ''true'' \<longrightarrow>
            fst (get_search verify upper like d req) =
              Inl \<lparr>status = 401, message = ''Authentication required to filter liked songs.''\<rparr>)"
proof -
  have a: "fst (authOptional verify req) = req"
    using assms(2) by (auto simp: authOptional_def split: sum.splits)
  have l: "snd (authOptional verify req) =
           (if truthy (req_token req)
            then [''Invalid token: '' @ projl (verify (str (req_token req)))] else [])"
    using assms(2) by (auto simp: authOptional_def split: sum.splits)
  have n: "fst (authOptional verify (req\<lparr>req_token := None\<rparr>)) = req\<lparr>req_token := None\<rparr>"
    by (simp add: authOptional_def)
  have h: "search_handler upper like d (req\<lparr>req_token := None\<rparr>) = search_handler upper like d req"
    by (simp add: search_handler_def Let_def)
  have g: "fst (get_search verify upper like d r) = search_handler upper like d (fst (authOptional verify r))"
    for r
    by (simp add: get_search_def split: prod.splits)
  have s: "fst (get_search verify upper like d req) = search_handler upper like d req"
    by (simp add: g a)
  have s': "fst (get_search verify upper like d (req\<lparr>req_token := None\<rparr>)) =
      search_handler upper like d req"
    by (simp add: g n h)
  have ok: "\<exists>rows. search_handler upper like d req = Inr rows"
    if "q_liked (req_query req) \<noteq> Some ''true''"
    using that by (simp add: search_handler_def Let_def)
  have no: "search_handler upper like d req =
      Inl \<lparr>status = 401, message = ''Authentication required to filter liked songs.''\<rparr>"
    if "q_liked (req_query req) = Some ''true''"
    using that assms(1) by (simp add: search_handler_def Let_def)
  show ?thesis
    unfolding s s' a using assms(1) l ok no by simp
qed

theorem authOptional_bad_token_is_anonymous_witness:
  "example_verify ''garbage'' = Inl ''jwt malformed''
   \<and> snd (get_search example_verify ascii_upper no_like search_db
            (mk_request (Some ''garbage'') (mk_query None None))) = [''Invalid token: jwt malformed'']
   \<and> fst (get_search example_verify ascii_upper no_like search_db
            (mk_request (Some ''garbage'') (mk_query None None))) =
       Inr [mk_row ''Hello'' ''Adele'' ''25'' ''Pop'' 900,
            mk_row ''Yellow'' ''Coldplay'' ''Parachutes'' ''Rock'' 800,
            mk_row ''Hello'' ''Lionel Richie'' ''Cant Slow Down'' ''Soul'' 700]
   \<and> fst (authOptional example_verify (mk_request (Some ''garbage'') (mk_query None None))) =
       mk_request (Some ''garbage'') (mk_query None None)"
proof -
  let ?req = "mk_request (Some ''garbage'') (mk_query None None)"
  have v: "example_verify ''garbage'' = Inl ''jwt malformed''"
    by (simp add: example_verify_def)
  have h1: "req_user ?req = None"
    by (simp add: mk_request_def)
  have h2: "\<not> truthy (req_token ?req) \<or> isl (example_verify (str (req_token ?req)))"
    by (simp add: mk_request_def v)
  note T = authOptional_bad_token_is_anonymous[of ?req example_verify ascii_upper no_like search_db, OF h1 h2]
  have anon: "?req\<lparr>req_token := None\<rparr> = mk_request None (mk_query None None)"
    by (simp add: mk_request_def)
  have "fst (get_search example_verify ascii_upper no_like search_db (mk_request None (mk_query None None))) =
      search_handler ascii_upper no_like search_db (mk_request None (mk_query None None))"
    by (simp add: get_search_def authOptional_def mk_request_def)
  with T anon have r: "fst (get_search example_verify ascii_upper no_like search_db ?req) =
       Inr [mk_row ''Hello'' ''Adele'' ''25'' ''Pop'' 900,
            mk_row ''Yellow'' ''Coldplay'' ''Parachutes'' ''Rock'' 800,
            mk_row ''Hello'' ''Lionel Richie'' ''Cant Slow Down'' ''Soul'' 700]"
    by (simp add: search_db_eval)
  have "snd (get_search example_verify ascii_upper no_like search_db ?req) =
      snd (authOptional example_verify ?req)"
    by (simp add: get_search_def split: prod.splits)
  with T have lg: "snd (get_search example_verify ascii_upper no_like search_db ?req) =
      [''Invalid token: jwt malformed'']"
    by (simp add: mk_request_def v)
  from T have "fst (authOptional example_verify ?req) = ?req" by blast
  with v r lg show ?thesis by blast
qed

section \<open>Login: proofs\<close>

text \<open>
  With a string for the email, the login of an unregistered email is answered 400
  \<open>Invalid email or password.\<close> whatever the password is, as long as it is truthy.
\<close>

lemma login_unregistered:
  assumes "e \<noteq> []" and "js_truthy (Some p)"
    and "filter (\<lambda>u. u_email u = e) (User d) = []"
  shows "post_login compare sign other d (Some (JStr e)) (Some p) =
     Inl \<lparr>status = 400, message = ''Invalid email or password.''\<rparr>"
  using assms by (simp add: post_login_def select_users_by_email_def)

text \<open>
  For a registered email the reply hangs on \<^verbatim>\<open>bcrypt.compare\<close>: the same 400 when it
  returns false, 500 when it throws.
\<close>

lemma login_registered:
  assumes "e \<noteq> []" and "js_truthy (Some p)"
    and "filter (\<lambda>u. u_email u = e) (User d) = user # others"
  shows "compare p (u_password user) = Inr False \<Longrightarrow>
           post_login compare sign other d (Some (JStr e)) (Some p) =
             Inl \<lparr>status = 400, message = ''Invalid email or password.''\<rparr>"
    and "compare p (u_password user) = Inl err \<Longrightarrow>
           post_login compare sign other d (Some (JStr e)) (Some p) =
             Inl \<lparr>status = 500,
                  message = ''Server error during login. Please try again later.''\<rparr>"
  using assms
  by (simp_all add: post_login_def select_users_by_email_def login_server_error_def)

text \<open>
  C8 on \<open>users_db\<close>, with the JSON number 1 for the password. It passes the guard on
  missing fields. For the unregistered \<open>eve@example.org\<close> the lookup is empty and the
  reply is 400 \<open>Invalid email or password.\<close>; for the registered \<open>bob@example.org\<close> the
  handler calls \<^verbatim>\<open>bcrypt.compare\<close>, which rejects a password that is not a string, and the
  \<^verbatim>\<open>catch\<close> answers 500: the two failures differ in status and message. With a string for
  the password (\<open>guess\<close>) the two replies are the same.
\<close>

theorem login_number_password_tells_emails_apart:
  "post_login example_compare example_sign no_rows users_db
       (Some (JStr ''eve@example.org'')) (Some (JNum 1)) =
     Inl \<lparr>status = 400, message = ''Invalid email or password.''\<rparr>
   \<and> post_login example_compare example_sign no_rows users_db
       (Some (JStr ''bob@example.org'')) (Some (JNum 1)) =
     Inl \<lparr>status = 500, message = ''Server error during login. Please try again later.''\<rparr>
   \<and> post_login example_compare example_sign no_rows users_db
       (Some (JStr ''eve@example.org'')) (Some (JStr ''guess'')) =
     Inl \<lparr>status = 400, message = ''Invalid email or password.''\<rparr>
   \<and> post_login example_compare example_sign no_rows users_db
       (Some (JStr ''bob@example.org'')) (Some (JStr ''guess'')) =
     Inl \<lparr>status = 400, message = ''Invalid email or password.''\<rparr>
   \<and> post_login example_compare example_sign no_rows users_db
       (Some (JStr ''bob@example.org'')) (Some (JStr ''secret'')) =
     Inr \<lparr>lo_token = ''tok-bob'', lo_username = ''bob'', lo_email = ''bob@example.org'',
          lo_bio = None, lo_message = ''Login successful.''\<rparr>"
proof -
  let ?bob = "\<lparr>u_username = ''bob'', u_email = ''bob@example.org'', u_password = ''h:secret'',
               u_bio = None\<rparr>"
  have eve: "filter (\<lambda>u. u_email u = ''eve@example.org'') (User users_db) = []"
    and bob: "filter (\<lambda>u. u_email u = ''bob@example.org'') (User users_db) = ?bob # []"
    by (simp_all add: users_db_def empty_db_def)
  have "post_login example_compare example_sign no_rows users_db
       (Some (JStr ''eve@example.org'')) (Some (JNum 1)) =
     Inl \<lparr>status = 400, message = ''Invalid email or password.''\<rparr>"
    by (rule login_unregistered[OF _ _ eve]) simp_all
  moreover have "post_login example_compare example_sign no_rows users_db
       (Some (JStr ''bob@example.org'')) (Some (JNum 1)) =
     Inl \<lparr>status = 500, message = ''Server error during login. Please try again later.''\<rparr>"
    by (rule login_registered(2)[OF _ _ bob, of _ _ "''data and hash must be strings''"])
       (simp_all add: example_compare_def)
  moreover have "post_login example_compare example_sign no_rows users_db
       (Some (JStr ''eve@example.org'')) (Some (JStr ''guess'')) =
     Inl \<lparr>status = 400, message = ''Invalid email or password.''\<rparr>"
    by (rule login_unregistered[OF _ _ eve]) simp_all
  moreover have "post_login example_compare example_sign no_rows users_db
       (Some (JStr ''bob@example.org'')) (Some (JStr ''guess'')) =
     Inl \<lparr>status = 400, message = ''Invalid email or password.''\<rparr>"
    by (rule login_registered(1)[OF _ _ bob]) (simp_all add: example_compare_def)
  moreover have "post_login example_compare example_sign no_rows users_db
       (Some (JStr ''bob@example.org'')) (Some (JStr ''secret'')) =
     Inr \<lparr>lo_token = ''tok-bob'', lo_username = ''bob'', lo_email = ''bob@example.org'',
          lo_bio = None, lo_message = ''Login successful.''\<rparr>"
    by (simp add: post_login_def select_users_by_email_def bob example_compare_def
          example_sign_def)
  ultimately show ?thesis by blast
qed

end
